theory Spec2Isabelle
  imports Main
begin

section \<open>Go values shared by the package\<close>

text \<open>
  A Go \<open>error\<close> is an interface value; \<open>nil\<close> is modelled by \<open>None\<close> of
  \<open>err option\<close>. The constructors are the ways the package builds or meets errors:
  the two sentinels of \<open>fluxcd/pkg/git\<close> that the code compares with \<open>!=\<close>,
  \<open>errors.New\<close>, \<open>fmt.Errorf\<close> with \<open>%w\<close> (message prefix and wrapped error),
  the result of \<open>errors.Join\<close>, and an error value handed back by a library.
\<close>

datatype err =
    ErrNoStagedFiles
  | ErrNoGitRepository
  | errors_New string
  | fmt_Errorf string err
  | joinError "err list"
  | LibError string

text \<open>\<open>errors.Join\<close> drops nil arguments and returns nil when all are nil.\<close>

definition errors_Join :: "err option list \<Rightarrow> err option" where
  "errors_Join errs =
     (case List.map_filter id errs of [] \<Rightarrow> None | e # es \<Rightarrow> Some (joinError (e # es)))"

text \<open>A call either returns a value or panics (index out of range, failed type assertion).\<close>

datatype 'a go = Panic string | Val 'a

type_synonym bytes = "char list"

text \<open>\<open>strings.HasSuffix\<close> and \<open>strings.TrimSuffix\<close>.\<close>

definition strings_HasSuffix :: "string \<Rightarrow> string \<Rightarrow> bool" where
  "strings_HasSuffix s suffix =
     (length suffix \<le> length s \<and> drop (length s - length suffix) s = suffix)"

definition strings_TrimSuffix :: "string \<Rightarrow> string \<Rightarrow> string" where
  "strings_TrimSuffix s suffix =
     (if strings_HasSuffix s suffix then take (length s - length suffix) s else s)"

text \<open>
  \<open>strings.Split(s, sep)\<close> for a separator of one byte: the pieces between the
  separators, in order; a string without the separator is the only piece. The result is
  never empty, so the second branch of the \<open>case\<close> is not taken.
\<close>

fun strings_Split :: "string \<Rightarrow> char \<Rightarrow> string list" where
  "strings_Split [] sep = [[]]"
| "strings_Split (c # cs) sep =
     (if c = sep then [] # strings_Split cs sep
      else (case strings_Split cs sep of
              piece # pieces \<Rightarrow> (c # piece) # pieces
            | [] \<Rightarrow> [[c]]))"

section \<open>Bootstrap options (package bootstrap)\<close>

text \<open>
  The \<open>options\<close> struct. Interface and pointer fields (\<open>kubeclient\<close>,
  \<open>restClientGetter\<close>, \<open>printer\<close>) are handles, \<open>None\<close> for nil;
  durations are nanosecond counts.
\<close>

record options =
  description :: string
  defaultBranch :: string
  visibility :: string
  personal :: bool
  owner :: string
  token :: string
  repositoryName :: string
  target :: string
  fromFile :: string
  registry :: string
  dockerConfigPath :: string
  transportType :: string
  kubeclient :: "nat option"
  restClientGetter :: "nat option"
  components :: "string list"
  interval :: int
  timeout :: int
  printer :: "nat option"

definition zero_options :: options where
  "zero_options =
     \<lparr>description = [], defaultBranch = [], visibility = [], personal = False, owner = [],
      token = [], repositoryName = [], target = [], fromFile = [], registry = [],
      dockerConfigPath = [], transportType = [], kubeclient = None, restClientGetter = None,
      components = [], interval = 0, timeout = 0, printer = None\<rparr>"

text \<open>
  An \<open>Option\<close> is a Go func value: a reference to a closure, which is the function
  literal of one \<open>With\<close> function together with the parameter it captured. The
  closures live in a store (a list, the reference is the index), because the same
  \<open>Option\<close> value can be invoked more than once, and a closure that assigns to its
  captured parameter is another closure at its next invocation. A reference outside the
  store is the nil func value.
\<close>

datatype closure =
    WithInterval_func int
  | WithTimeout_func int
  | WithRESTClientGetter_func "nat option"
  | WithKubeClient_func "nat option"
  | WithDockerConfigPath_func string
  | WithTarget_func string
  | WithPrinter_func "nat option"
  | WithComponents_func "string list"
  | WithDescription_func string
  | WithDefaultBranch_func string
  | WithVisibility_func string
  | WithPersonal_func bool
  | WithOwner_func string
  | WithToken_func string
  | WithRepositoryName_func string
  | WithFromFile_func string
  | WithRegistry_func string
  | WithTransportType_func string

type_synonym Option = nat

type_synonym closures = "closure list"

definition new_closure :: "closure \<Rightarrow> closures \<Rightarrow> Option \<times> closures" where
  "new_closure c cs = (length cs, cs @ [c])"

text \<open>Each \<open>With\<close> function returns a new closure over its parameter.\<close>

definition WithInterval :: "int \<Rightarrow> closures \<Rightarrow> Option \<times> closures" where
  "WithInterval v cs = new_closure (WithInterval_func v) cs"

definition WithTimeout :: "int \<Rightarrow> closures \<Rightarrow> Option \<times> closures" where
  "WithTimeout v cs = new_closure (WithTimeout_func v) cs"

definition WithRESTClientGetter :: "nat option \<Rightarrow> closures \<Rightarrow> Option \<times> closures" where
  "WithRESTClientGetter v cs = new_closure (WithRESTClientGetter_func v) cs"

definition WithKubeClient :: "nat option \<Rightarrow> closures \<Rightarrow> Option \<times> closures" where
  "WithKubeClient v cs = new_closure (WithKubeClient_func v) cs"

definition WithDockerConfigPath :: "string \<Rightarrow> closures \<Rightarrow> Option \<times> closures" where
  "WithDockerConfigPath v cs = new_closure (WithDockerConfigPath_func v) cs"

definition WithTarget :: "string \<Rightarrow> closures \<Rightarrow> Option \<times> closures" where
  "WithTarget v cs = new_closure (WithTarget_func v) cs"

definition WithPrinter :: "nat option \<Rightarrow> closures \<Rightarrow> Option \<times> closures" where
  "WithPrinter v cs = new_closure (WithPrinter_func v) cs"

definition WithComponents :: "string list \<Rightarrow> closures \<Rightarrow> Option \<times> closures" where
  "WithComponents v cs = new_closure (WithComponents_func v) cs"

definition WithDescription :: "string \<Rightarrow> closures \<Rightarrow> Option \<times> closures" where
  "WithDescription v cs = new_closure (WithDescription_func v) cs"

definition WithDefaultBranch :: "string \<Rightarrow> closures \<Rightarrow> Option \<times> closures" where
  "WithDefaultBranch v cs = new_closure (WithDefaultBranch_func v) cs"

definition WithVisibility :: "string \<Rightarrow> closures \<Rightarrow> Option \<times> closures" where
  "WithVisibility v cs = new_closure (WithVisibility_func v) cs"

definition WithPersonal :: "bool \<Rightarrow> closures \<Rightarrow> Option \<times> closures" where
  "WithPersonal v cs = new_closure (WithPersonal_func v) cs"

definition WithOwner :: "string \<Rightarrow> closures \<Rightarrow> Option \<times> closures" where
  "WithOwner v cs = new_closure (WithOwner_func v) cs"

definition WithToken :: "string \<Rightarrow> closures \<Rightarrow> Option \<times> closures" where
  "WithToken v cs = new_closure (WithToken_func v) cs"

definition WithRepositoryName :: "string \<Rightarrow> closures \<Rightarrow> Option \<times> closures" where
  "WithRepositoryName v cs = new_closure (WithRepositoryName_func v) cs"

definition WithFromFile :: "string \<Rightarrow> closures \<Rightarrow> Option \<times> closures" where
  "WithFromFile v cs = new_closure (WithFromFile_func v) cs"

definition WithRegistry :: "string \<Rightarrow> closures \<Rightarrow> Option \<times> closures" where
  "WithRegistry v cs = new_closure (WithRegistry_func v) cs"

definition WithTransportType :: "string \<Rightarrow> closures \<Rightarrow> Option \<times> closures" where
  "WithTransportType v cs = new_closure (WithTransportType_func v) cs"

text \<open>
  Invoking a closure on the options struct gives the closure as the call leaves it and
  the struct as the call leaves it. Only the literal of \<open>WithTarget\<close> assigns to its
  captured parameter: \<open>target = strings.TrimSuffix(target, "/")\<close>, then
  \<open>o.target = target\<close>.
\<close>

fun invoke :: "closure \<Rightarrow> options \<Rightarrow> closure \<times> options" where
  "invoke (WithInterval_func v) o1 = (WithInterval_func v, o1\<lparr>interval := v\<rparr>)"
| "invoke (WithTimeout_func v) o1 = (WithTimeout_func v, o1\<lparr>timeout := v\<rparr>)"
| "invoke (WithRESTClientGetter_func v) o1 = (WithRESTClientGetter_func v, o1\<lparr>restClientGetter := v\<rparr>)"
| "invoke (WithKubeClient_func v) o1 = (WithKubeClient_func v, o1\<lparr>kubeclient := v\<rparr>)"
| "invoke (WithDockerConfigPath_func v) o1 = (WithDockerConfigPath_func v, o1\<lparr>dockerConfigPath := v\<rparr>)"
| "invoke (WithTarget_func v) o1 =
     (WithTarget_func (strings_TrimSuffix v ''/''), o1\<lparr>target := strings_TrimSuffix v ''/''\<rparr>)"
| "invoke (WithPrinter_func v) o1 = (WithPrinter_func v, o1\<lparr>printer := v\<rparr>)"
| "invoke (WithComponents_func v) o1 = (WithComponents_func v, o1\<lparr>components := v\<rparr>)"
| "invoke (WithDescription_func v) o1 = (WithDescription_func v, o1\<lparr>description := v\<rparr>)"
| "invoke (WithDefaultBranch_func v) o1 = (WithDefaultBranch_func v, o1\<lparr>defaultBranch := v\<rparr>)"
| "invoke (WithVisibility_func v) o1 = (WithVisibility_func v, o1\<lparr>visibility := v\<rparr>)"
| "invoke (WithPersonal_func v) o1 = (WithPersonal_func v, o1\<lparr>personal := v\<rparr>)"
| "invoke (WithOwner_func v) o1 = (WithOwner_func v, o1\<lparr>owner := v\<rparr>)"
| "invoke (WithToken_func v) o1 = (WithToken_func v, o1\<lparr>token := v\<rparr>)"
| "invoke (WithRepositoryName_func v) o1 = (WithRepositoryName_func v, o1\<lparr>repositoryName := v\<rparr>)"
| "invoke (WithFromFile_func v) o1 = (WithFromFile_func v, o1\<lparr>fromFile := v\<rparr>)"
| "invoke (WithRegistry_func v) o1 = (WithRegistry_func v, o1\<lparr>registry := v\<rparr>)"
| "invoke (WithTransportType_func v) o1 = (WithTransportType_func v, o1\<lparr>transportType := v\<rparr>)"

text \<open>
  The \<open>Bootstrap\<close> struct: the provider client (a handle), the management repository
  (nil until reconciled), the clone URL and the embedded options.
\<close>

record Bootstrap =
  ProviderClient :: nat
  repository :: "nat option"
  url :: string
  opts :: options

text \<open>\<open>setDefaults\<close>: four tests of a string field against \<open>""\<close>, in the source's order.\<close>

definition setDefaults :: "Bootstrap \<Rightarrow> Bootstrap" where
  "setDefaults b =
     (let b1 = (if description (opts b) = []
                then b\<lparr>opts := (opts b)\<lparr>description :=
                       ''Management repository for the Open Component Model''\<rparr>\<rparr>
                else b);
          b2 = (if defaultBranch (opts b1) = []
                then b1\<lparr>opts := (opts b1)\<lparr>defaultBranch := ''main''\<rparr>\<rparr> else b1);
          b3 = (if visibility (opts b2) = []
                then b2\<lparr>opts := (opts b2)\<lparr>visibility := ''private''\<rparr>\<rparr> else b2);
          b4 = (if transportType (opts b3) = []
                then b3\<lparr>opts := (opts b3)\<lparr>transportType := ''https''\<rparr>\<rparr> else b3)
      in b4)"

text \<open>
  The loop of \<open>New\<close> invokes the options in order on the zero-valued struct; calling
  a nil func value panics.
\<close>

fun apply_opts :: "Option list \<Rightarrow> closures \<Rightarrow> options \<Rightarrow> (closures \<times> options) go" where
  "apply_opts [] cs o1 = Val (cs, o1)"
| "apply_opts (opt # rest) cs o1 =
     (if opt < length cs then
        (case invoke (cs ! opt) o1 of (c, o2) \<Rightarrow> apply_opts rest (cs[opt := c]) o2)
      else Panic ''invalid memory address or nil pointer dereference'')"

text \<open>\<open>New\<close> returns the Bootstrap and leaves the closures as the calls left them.\<close>

definition New :: "nat \<Rightarrow> Option list \<Rightarrow> closures \<Rightarrow> (Bootstrap \<times> closures) go" where
  "New pc optlist cs =
     (case apply_opts optlist cs zero_options of
        Panic p \<Rightarrow> Panic p
      | Val (cs1, o1) \<Rightarrow>
          Val (setDefaults \<lparr>ProviderClient = pc, repository = None, url = [], opts = o1\<rparr>, cs1))"

section \<open>Component repository, resources and versions (package bootstrap, flux installer)\<close>

text \<open>
  The \<open>nameTag\<close> struct and the \<open>resources\<close> struct of the installer. A Go
  byte slice that may be nil is \<open>bytes option\<close>, \<open>None\<close> for nil; the map
  \<open>imagesResources\<close> is a partial function.
\<close>

record nameTag =
  Name :: string
  Tag :: string

record resources =
  componentResource :: "bytes option"
  ocmConfig :: "bytes option"
  imagesResources :: "string \<rightharpoonup> nameTag"
  compomentsList :: "string list"

text \<open>
  The access specification of a resource: \<open>*ociartifact.AccessSpec\<close> with its
  \<open>ImageReference\<close>, or a specification of another type.
\<close>

datatype AccessSpec = OciArtifactAccessSpec string | OtherAccessSpec string

text \<open>
  What the calls on a resource give. \<open>resource.AccessMethod()\<close> gives an error or an
  access method, whose \<open>Reader()\<close> gives an error or a reader, on which
  \<open>compression.AutoDecompress\<close> gives an error or a decompressed reader, on which
  \<open>io.ReadAll\<close> gives an error or the bytes (a slice that is not nil, also when it
  is empty).
\<close>

type_synonym DecompressedReader = "err + bytes"
type_synonym Reader = "err + DecompressedReader"
type_synonym AccessMethod = "err + Reader"

record Resource =
  GetName :: string
  GetType :: string
  Access :: "err + AccessSpec"
  AccessMethod :: "err + AccessMethod"

record ComponentVersionAccess =
  GetVersion :: string
  GetResources :: "Resource list"

record Component =
  ListVersions :: "err + string list"
  LookupVersion :: "string \<Rightarrow> err + ComponentVersionAccess"

record Repository =
  LookupComponent :: "string \<Rightarrow> err + Component"

text \<open>
  The \<open>Masterminds/semver\<close> library, whose code is not part of the repository, is a
  parameter: \<open>NewVersion\<close> and \<open>NewConstraint\<close> parse or fail, a constraint is
  the predicate that \<open>Check\<close> computes, and a \<open>Version\<close> carries the fields of
  the library's struct; \<open>ver.Original()\<close> reads \<open>original\<close>.
\<close>

record Version =
  major :: nat
  minor :: nat
  patch :: nat
  pre :: string
  metadata :: string
  original :: string

record semver =
  NewConstraint :: "string \<Rightarrow> err + (Version \<Rightarrow> bool)"
  NewVersion :: "string \<Rightarrow> err + Version"

text \<open>
  The loop of \<open>getComponentVersion\<close> over the listed names: a name that does not
  parse returns its error, the first version that satisfies the constraint ends the loop
  (\<open>break\<close>), and the end of the list leaves \<open>ver\<close> nil.
\<close>

fun find_version :: "semver \<Rightarrow> (Version \<Rightarrow> bool) \<Rightarrow> string list \<Rightarrow> err + Version option" where
  "find_version sv constraint [] = Inr None"
| "find_version sv constraint (vname # vnames) =
     (case NewVersion sv vname of
        Inl e \<Rightarrow> Inl e
      | Inr v \<Rightarrow> if constraint v then Inr (Some v) else find_version sv constraint vnames)"

definition getComponentVersion ::
  "semver \<Rightarrow> Repository \<Rightarrow> string \<Rightarrow> string \<Rightarrow> err + ComponentVersionAccess" where
  "getComponentVersion sv repo componentName version =
     (case LookupComponent repo componentName of
        Inl e \<Rightarrow> Inl e
      | Inr c \<Rightarrow>
          (case ListVersions c of
             Inl e \<Rightarrow> Inl e
           | Inr vnames \<Rightarrow>
               (case NewConstraint sv version of
                  Inl e \<Rightarrow> Inl e
                | Inr constraint \<Rightarrow>
                    (case find_version sv constraint vnames of
                       Inl e \<Rightarrow> Inl e
                     | Inr None \<Rightarrow> Inl (errors_New ''no matching version found'')
                     | Inr (Some ver) \<Rightarrow> LookupVersion c (original ver)))))"

definition getResourceContent :: "Resource \<Rightarrow> err + bytes" where
  "getResourceContent resource =
     (case AccessMethod resource of
        Inl e \<Rightarrow> Inl e
      | Inr access \<Rightarrow>
          (case access of
             Inl e \<Rightarrow> Inl e
           | Inr reader \<Rightarrow>
               (case reader of
                  Inl e \<Rightarrow> Inl e
                | Inr decompressedReader \<Rightarrow> decompressedReader)))"

text \<open>
  \<open>getResourceRef\<close> has no error result. An error of \<open>resource.Access()\<close> gives
  the pair of empty strings; the type assertion panics on another type of specification;
  indexing the split at 1 panics when the split has one piece.
\<close>

definition getResourceRef :: "Resource \<Rightarrow> (string \<times> string) go" where
  "getResourceRef resource =
     (case Access resource of
        Inl e \<Rightarrow> Val ([], [])
      | Inr (OtherAccessSpec t) \<Rightarrow> Panic ''interface conversion''
      | Inr (OciArtifactAccessSpec im) \<Rightarrow>
          (let parts = strings_Split im (CHR '':'')
           in if 1 < length parts then Val (parts ! 0, parts ! 1)
              else Panic ''index out of range [1] with length 1''))"

text \<open>
  The loop of \<open>getResources\<close>, with the four variables it fills as the accumulator.
  The \<open>switch\<close> takes the first case that matches.
\<close>

fun getResources_loop :: "string \<Rightarrow> Resource list \<Rightarrow> resources \<Rightarrow> (err + resources) go" where
  "getResources_loop componentName [] acc = Val (Inr acc)"
| "getResources_loop componentName (resource # rest) acc =
     (if GetName resource = componentName then
        (case getResourceContent resource of
           Inl e \<Rightarrow> Val (Inl e)
         | Inr c \<Rightarrow> getResources_loop componentName rest (acc\<lparr>componentResource := Some c\<rparr>))
      else if GetName resource = ''ocm-config'' then
        (case getResourceContent resource of
           Inl e \<Rightarrow> Val (Inl e)
         | Inr c \<Rightarrow> getResources_loop componentName rest (acc\<lparr>ocmConfig := Some c\<rparr>))
      else if GetType resource = ''ociImage'' then
        (case getResourceRef resource of
           Panic p \<Rightarrow> Panic p
         | Val (name, version) \<Rightarrow>
             getResources_loop componentName rest
               (acc\<lparr>imagesResources :=
                      (imagesResources acc)(GetName resource \<mapsto> \<lparr>Name = name, Tag = version\<rparr>),
                    compomentsList := compomentsList acc @ [GetName resource]\<rparr>))
      else getResources_loop componentName rest acc)"

definition getResources :: "ComponentVersionAccess \<Rightarrow> string \<Rightarrow> (err + resources) go" where
  "getResources cv componentName =
     getResources_loop componentName (GetResources cv)
       \<lparr>componentResource = None, ocmConfig = None, imagesResources = Map.empty,
        compomentsList = []\<rparr>"

section \<open>Manifest generation\<close>

text \<open>
  The fields of \<open>kustypes.Image\<close> and \<open>kustypes.Kustomization\<close> that the
  installer writes, and of \<open>cfd.ConfigData\<close> the one it reads: the resource name of
  each localization rule.
\<close>

record Image =
  Image_Name :: string
  Image_NewName :: string
  Image_NewTag :: string

record Kustomization =
  Resources :: "string list"
  Images :: "Image list"

record LocalizationRule =
  Resource_Name :: string

record ConfigData =
  Localization :: "LocalizationRule list"

text \<open>
  The loop of \<open>generateGOTKComponent\<close>. Reading a Go map at a key it does not hold
  gives the zero value, here the \<open>nameTag\<close> of two empty strings.
  \<open>env.DefaultFluxHost\<close> is a constant of a package that is not part of the
  sources at hand: it is the parameter \<open>host\<close>.
\<close>

definition lookup_image :: "(string \<rightharpoonup> nameTag) \<Rightarrow> string \<Rightarrow> nameTag" where
  "lookup_image m k = (case m k of None \<Rightarrow> \<lparr>Name = [], Tag = []\<rparr> | Some v \<Rightarrow> v)"

fun append_images ::
  "string \<Rightarrow> (string \<rightharpoonup> nameTag) \<Rightarrow> LocalizationRule list \<Rightarrow> Kustomization \<Rightarrow> Kustomization" where
  "append_images host imgs [] kus = kus"
| "append_images host imgs (loc # locs) kus =
     (let image = lookup_image imgs (Resource_Name loc)
      in append_images host imgs locs
           (kus\<lparr>Images := Images kus @
              [\<lparr>Image_Name = host @ ''/'' @ Resource_Name loc,
                Image_NewName = Name image, Image_NewTag = Tag image\<rparr>]\<rparr>))"

section \<open>The world outside the installer\<close>

text \<open>
  Every call that leaves the process (Git, file system, kustomize, cluster, clock) is
  recorded as an event, in call order. What such a call returns is decided by the world,
  as a function of the events so far: a clone may fail first and succeed later.
\<close>

datatype event =
    EvHead
  | EvClone string string
  | EvCommit string string string
  | EvPush
  | EvReadDir string
  | EvRemoveAll string
  | EvSleep int
  | EvCreate string
  | EvRemove string
  | EvWriteFile string bytes
  | EvReadFile string
  | EvBuild string
  | EvMustInstallKustomization
  | EvStat string
  | EvApply string
  | EvReconcileSourceSecret
  | EvReconcileSyncConfig string
  | EvReportKustomizationHealth
  | EvReportComponentsHealth "string list"

type_synonym trace = "event list"

text \<open>The Git operations among the events: head probe, clone, commit, push.\<close>

fun is_git :: "event \<Rightarrow> bool" where
  "is_git EvHead = True"
| "is_git (EvClone u b) = True"
| "is_git (EvCommit m p c) = True"
| "is_git EvPush = True"
| "is_git ev = False"

text \<open>
  The libraries the installer calls: the Git client (\<open>Head\<close>, \<open>Clone\<close>,
  \<open>Commit\<close>, \<open>Push\<close>, \<open>Path\<close>), package \<open>os\<close>, \<open>path/filepath\<close>,
  the YAML encoders and decoders, \<open>kustomize.Build\<close> (a resource map is what its
  \<open>AsYaml\<close> gives), \<open>kubeutils\<close>, the flux bootstrapper, and the constants of
  packages \<open>env\<close> and \<open>konfig\<close>.
\<close>

record env =
  Head :: "trace \<Rightarrow> err option"
  Clone :: "string \<Rightarrow> string \<Rightarrow> trace \<Rightarrow> err option"
  Commit :: "string \<Rightarrow> string \<Rightarrow> string \<Rightarrow> trace \<Rightarrow> err option"
  Push :: "trace \<Rightarrow> err option"
  Path :: string
  os_ReadDir :: "string \<Rightarrow> trace \<Rightarrow> err + string list"
  os_RemoveAll :: "string \<Rightarrow> trace \<Rightarrow> err option"
  os_Create :: "string \<Rightarrow> trace \<Rightarrow> err option"
  os_Remove :: "string \<Rightarrow> trace \<Rightarrow> err option"
  os_WriteFile :: "string \<Rightarrow> bytes \<Rightarrow> trace \<Rightarrow> err option"
  os_ReadFile :: "string \<Rightarrow> trace \<Rightarrow> err + bytes"
  os_Stat :: "string \<Rightarrow> trace \<Rightarrow> err option"
  filepath_Join :: "string \<Rightarrow> string \<Rightarrow> string"
  filepath_Dir :: "string \<Rightarrow> string"
  yaml_Marshal :: "Kustomization \<Rightarrow> err + bytes"
  yaml_Unmarshal :: "bytes \<Rightarrow> Kustomization \<Rightarrow> err + Kustomization"
  decoder_Decode :: "bytes \<Rightarrow> err + ConfigData"
  kustomize_Build :: "string \<Rightarrow> trace \<Rightarrow> err + (err + bytes)"
  MustInstallKustomization :: "trace \<Rightarrow> bool"
  kubeutils_Apply :: "string \<Rightarrow> trace \<Rightarrow> err option"
  ReconcileSourceSecret :: "trace \<Rightarrow> err option"
  ReconcileSyncConfig :: "string \<Rightarrow> trace \<Rightarrow> err option"
  ReportKustomizationHealth :: "trace \<Rightarrow> err option"
  ReportComponentsHealth :: "string list \<Rightarrow> trace \<Rightarrow> err option"
  DefaultFluxHost :: string
  DefaultKustomizationFileName :: string

text \<open>
  The \<open>fluxInstall\<close> struct with the fields of the embedded \<open>fluxOptions\<close>. The
  clients are part of the world; the mutex is not modelled, an installation being one
  sequential run.
\<close>

record fluxInstall =
  componentName :: string
  version :: string
  flux_repository :: Repository
  flux_components :: "string list"
  flux_url :: string
  testURL :: string
  transport :: string
  branch :: string
  targetPath :: string
  namespace :: string
  flux_token :: string
  dir :: string
  commitMessageAppendix :: string
  flux_interval :: int
  flux_timeout :: int

section \<open>Git reconciler\<close>

text \<open>
  \<open>retry\<close>: the loop \<open>for i := 0; ; i++\<close>, from the value of \<open>i\<close> on. The
  function \<open>fn\<close> is a closure with effects: it takes the events so far and gives its
  error and the events after it.
\<close>

function retry_from ::
  "int \<Rightarrow> int \<Rightarrow> int \<Rightarrow> (trace \<Rightarrow> err option \<times> trace) \<Rightarrow> trace \<Rightarrow> err option \<times> trace" where
  "retry_from i retries wait fn tr =
     (case fn tr of
        (None, tr1) \<Rightarrow> (None, tr1)
      | (Some e, tr1) \<Rightarrow>
          if i \<ge> retries then (Some e, tr1)
          else retry_from (i + 1) retries wait fn (tr1 @ [EvSleep wait]))"
  by pat_completeness auto
termination
  by (relation "measure (\<lambda>(i, retries, wait, fn, tr). nat (retries - i))") auto

definition retry ::
  "int \<Rightarrow> int \<Rightarrow> (trace \<Rightarrow> err option \<times> trace) \<Rightarrow> trace \<Rightarrow> err option \<times> trace" where
  "retry retries wait fn tr = retry_from 0 retries wait fn tr"

text \<open>The loop of \<open>cleanGitRepoDir\<close> over the entries, joining the errors.\<close>

fun remove_entries :: "env \<Rightarrow> string list \<Rightarrow> err option \<Rightarrow> trace \<Rightarrow> err option \<times> trace" where
  "remove_entries w [] acc tr = (acc, tr)"
| "remove_entries w (d # ds) acc tr =
     (let p = filepath_Join w (Path w) d
      in case os_RemoveAll w p tr of
           None \<Rightarrow> remove_entries w ds acc (tr @ [EvRemoveAll p])
         | Some er \<Rightarrow> remove_entries w ds (errors_Join [acc, Some er]) (tr @ [EvRemoveAll p]))"

definition cleanGitRepoDir :: "env \<Rightarrow> trace \<Rightarrow> err option \<times> trace" where
  "cleanGitRepoDir w tr =
     (case os_ReadDir w (Path w) tr of
        Inl er \<Rightarrow> (Some er, tr @ [EvReadDir (Path w)])
      | Inr dirs \<Rightarrow> remove_entries w dirs None (tr @ [EvReadDir (Path w)]))"

text \<open>The closure that \<open>cloneRepository\<close> hands to \<open>retry\<close>.\<close>

definition clone_attempt :: "env \<Rightarrow> fluxInstall \<Rightarrow> trace \<Rightarrow> err option \<times> trace" where
  "clone_attempt w f tr =
     (case cleanGitRepoDir w tr of
        (Some e, tr1) \<Rightarrow> (Some (fmt_Errorf ''failed to clean git repository directory'' e), tr1)
      | (None, tr1) \<Rightarrow>
          (Clone w (flux_url f) (branch f) tr1, tr1 @ [EvClone (flux_url f) (branch f)]))"

text \<open>Two seconds, in nanoseconds.\<close>

definition two_seconds :: int where
  "two_seconds = 2 * 1000000000"

definition cloneRepository :: "env \<Rightarrow> fluxInstall \<Rightarrow> trace \<Rightarrow> err option \<times> trace" where
  "cloneRepository w f tr =
     (case Head w tr of
        None \<Rightarrow> (None, tr @ [EvHead])
      | Some e \<Rightarrow>
          if e \<noteq> ErrNoGitRepository then (Some e, tr @ [EvHead])
          else
            (case retry 1 two_seconds (clone_attempt w f) (tr @ [EvHead]) of
               (Some e1, tr1) \<Rightarrow> (Some (fmt_Errorf ''failed to clone repository'' e1), tr1)
             | (None, tr1) \<Rightarrow> (None, tr1)))"

definition commitMsg :: "fluxInstall \<Rightarrow> string" where
  "commitMsg f =
     (let m = ''Add Flux '' @ version f @ '' component manifests''
      in if commitMessageAppendix f \<noteq> [] then m @ [CHR 0x0A, CHR 0x0A] @ commitMessageAppendix f
         else m)"

definition commitAndPushComponents ::
  "env \<Rightarrow> fluxInstall \<Rightarrow> string \<Rightarrow> string \<Rightarrow> trace \<Rightarrow> err option \<times> trace" where
  "commitAndPushComponents w f path content tr =
     (let e = Commit w (commitMsg f) path content tr;
          tr1 = tr @ [EvCommit (commitMsg f) path content]
      in if e \<noteq> None \<and> e \<noteq> Some ErrNoStagedFiles
         then (Some (fmt_Errorf ''failed to commit sync manifests'' (the e)), tr1)
         else if e = None then
           (case Push w tr1 of
              Some e1 \<Rightarrow> (Some (fmt_Errorf ''failed to push manifests'' e1), tr1 @ [EvPush])
            | None \<Rightarrow> (None, tr1 @ [EvPush]))
         else (None, tr1))"

definition reconcileComponents ::
  "env \<Rightarrow> fluxInstall \<Rightarrow> string \<Rightarrow> string \<Rightarrow> trace \<Rightarrow> err option \<times> trace" where
  "reconcileComponents w f path content tr =
     (case cloneRepository w f tr of
        (Some e, tr1) \<Rightarrow> (Some (fmt_Errorf ''failed to clone repository'' e), tr1)
      | (None, tr1) \<Rightarrow>
          (case commitAndPushComponents w f path content tr1 of
             (Some e, tr2) \<Rightarrow> (Some (fmt_Errorf ''failed to commit and push components'' e), tr2)
           | (None, tr2) \<Rightarrow>
               (let tr3 = tr2 @ [EvMustInstallKustomization]
                in if MustInstallKustomization w tr2 then
                     (let componentsYAML = filepath_Join w (Path w) path;
                          kfile = filepath_Join w (filepath_Dir w componentsYAML)
                                    (DefaultKustomizationFileName w);
                          tr4 = tr3 @ [EvStat kfile]
                      in if os_Stat w kfile tr3 = None then
                           (case kubeutils_Apply w kfile tr4 of
                              Some e \<Rightarrow> (Some (fmt_Errorf ''failed to apply components'' e),
                                         tr4 @ [EvApply kfile])
                            | None \<Rightarrow> (None, tr4 @ [EvApply kfile]))
                         else
                           (case kubeutils_Apply w componentsYAML tr4 of
                              Some e \<Rightarrow> (Some (fmt_Errorf ''failed to apply components'' e),
                                         tr4 @ [EvApply componentsYAML])
                            | None \<Rightarrow> (None, tr4 @ [EvApply componentsYAML])))
                   else (None, tr3))))"

section \<open>Writing and building the kustomization\<close>

definition empty_kustomization :: Kustomization where
  "empty_kustomization = \<lparr>Resources = [], Images = []\<rparr>"

definition generateKustomizationFile ::
  "env \<Rightarrow> string \<Rightarrow> string \<Rightarrow> trace \<Rightarrow> (err + string) \<times> trace" where
  "generateKustomizationFile w path resource tr =
     (let kfile = filepath_Join w path (DefaultKustomizationFileName w);
          tr1 = tr @ [EvCreate kfile]
      in case os_Create w kfile tr of
           Some e \<Rightarrow> (Inl e, tr1)
         | None \<Rightarrow>
             (case yaml_Marshal w \<lparr>Resources = [resource], Images = []\<rparr> of
                Inl e \<Rightarrow> (Inl e, tr1 @ [EvRemove kfile])
              | Inr kd \<Rightarrow>
                  (case os_WriteFile w kfile kd tr1 of
                     Some e \<Rightarrow> (Inl e, tr1 @ [EvWriteFile kfile kd])
                   | None \<Rightarrow> (Inr kfile, tr1 @ [EvWriteFile kfile kd]))))"

definition genKus ::
  "env \<Rightarrow> string \<Rightarrow> bytes \<Rightarrow> string \<Rightarrow> trace \<Rightarrow> (err + string \<times> Kustomization) \<times> trace" where
  "genKus w d config resourceName tr =
     (case generateKustomizationFile w d resourceName tr of
        (Inl e, tr1) \<Rightarrow> (Inl e, tr1)
      | (Inr kfile, tr1) \<Rightarrow>
          (case os_ReadFile w kfile tr1 of
             Inl e \<Rightarrow> (Inl e, tr1 @ [EvReadFile kfile])
           | Inr data \<Rightarrow>
               (case yaml_Unmarshal w data empty_kustomization of
                  Inl e \<Rightarrow> (Inl e, tr1 @ [EvReadFile kfile])
                | Inr kus \<Rightarrow> (Inr (kfile, kus), tr1 @ [EvReadFile kfile]))))"

definition generateKustomization ::
  "env \<Rightarrow> fluxInstall \<Rightarrow> bytes \<Rightarrow> bytes \<Rightarrow> trace \<Rightarrow> (err + string \<times> Kustomization) \<times> trace" where
  "generateKustomization w f fluxResource config tr =
     (let p = filepath_Join w (dir f) ''gotk-components.yaml''
      in case os_WriteFile w p fluxResource tr of
           Some e \<Rightarrow> (Inl e, tr @ [EvWriteFile p fluxResource])
         | None \<Rightarrow>
             genKus w (dir f) config ''./gotk-components.yaml'' (tr @ [EvWriteFile p fluxResource]))"

definition unMarshallConfig :: "env \<Rightarrow> bytes \<Rightarrow> err + ConfigData" where
  "unMarshallConfig w data =
     (case decoder_Decode w data of
        Inl e \<Rightarrow> Inl (fmt_Errorf ''failed to decode config data'' e)
      | Inr k \<Rightarrow> Inr k)"

definition buildKustomization ::
  "env \<Rightarrow> Kustomization \<Rightarrow> string \<Rightarrow> string \<Rightarrow> trace \<Rightarrow> (err + bytes) \<times> trace" where
  "buildKustomization w kus kfile d tr =
     (case yaml_Marshal w kus of
        Inl e \<Rightarrow> (Inl e, tr)
      | Inr manifest \<Rightarrow>
          (let tr1 = tr @ [EvWriteFile kfile manifest]
           in case os_WriteFile w kfile manifest tr of
                Some e \<Rightarrow> (Inl e, tr1)
              | None \<Rightarrow>
                  (case kustomize_Build w d tr1 of
                     Inl e \<Rightarrow> (Inl (fmt_Errorf ''kustomize build failed'' e), tr1 @ [EvBuild d])
                   | Inr m \<Rightarrow>
                       (case m of
                          Inl e \<Rightarrow>
                            (Inl (fmt_Errorf ''kustomize build failed'' e), tr1 @ [EvBuild d])
                        | Inr res \<Rightarrow> (Inr res, tr1 @ [EvBuild d])))))"

definition generateGOTKComponent ::
  "env \<Rightarrow> fluxInstall \<Rightarrow> ConfigData \<Rightarrow> (string \<rightharpoonup> nameTag) \<Rightarrow> Kustomization \<Rightarrow> string \<Rightarrow>
   trace \<Rightarrow> (err + bytes) \<times> trace" where
  "generateGOTKComponent w f kconfig imgs kus kfile tr =
     buildKustomization w
       (append_images (DefaultFluxHost w) imgs (Localization kconfig) kus) kfile (dir f) tr"

section \<open>Install\<close>

text \<open>
  The health phase of \<open>Install\<close>: from \<open>var healthErr error\<close> to the end of the
  function.
\<close>

definition Install_reportHealth :: "env \<Rightarrow> fluxInstall \<Rightarrow> trace \<Rightarrow> err option \<times> trace" where
  "Install_reportHealth w f tr =
     (let e1 = ReportKustomizationHealth w tr;
          tr1 = tr @ [EvReportKustomizationHealth];
          healthErr1 = (if e1 \<noteq> None then errors_Join [None, e1] else None);
          e2 = ReportComponentsHealth w (flux_components f) tr1;
          tr2 = tr1 @ [EvReportComponentsHealth (flux_components f)];
          healthErr2 = (if e2 \<noteq> None then errors_Join [healthErr1, e2] else healthErr1)
      in case healthErr2 of
           Some e \<Rightarrow>
             (Some (fmt_Errorf ''failed to report health, please try again later'' e), tr2)
         | None \<Rightarrow> (None, tr2))"

text \<open>
  The part of \<open>Install\<close> after the generated manifest: reconcile the components into
  Git, then the source secret and the sync configuration, then the health phase.
  \<open>syncURL\<close> is the URL of the sync options.
\<close>

definition Install_reconcile ::
  "env \<Rightarrow> fluxInstall \<Rightarrow> bytes \<Rightarrow> trace \<Rightarrow> err option \<times> trace" where
  "Install_reconcile w f res tr =
     (case reconcileComponents w f
             (targetPath f @ ''/'' @ namespace f @ ''/'' @ ''gotk-components.yaml'') res tr of
        (Some e, tr1) \<Rightarrow> (Some (fmt_Errorf ''failed to reconcile components'' e), tr1)
      | (None, tr1) \<Rightarrow>
          (case ReconcileSourceSecret w tr1 of
             Some e \<Rightarrow> (Some e, tr1 @ [EvReconcileSourceSecret])
           | None \<Rightarrow>
               (let tr2 = tr1 @ [EvReconcileSourceSecret];
                    syncURL = (if testURL f \<noteq> [] then testURL f else flux_url f);
                    tr3 = tr2 @ [EvReconcileSyncConfig syncURL]
                in case ReconcileSyncConfig w syncURL tr2 of
                     Some e \<Rightarrow> (Some (fmt_Errorf ''failed to reconcile sync config'' e), tr3)
                   | None \<Rightarrow> Install_reportHealth w f tr3)))"

text \<open>
  \<open>Install\<close>. It returns the error (or panics), the struct with \<open>components\<close>
  assigned, and the events. Resolving the version and extracting the resources read the
  component repository, which is a value here, and leave no event.
\<close>

definition Install ::
  "env \<Rightarrow> semver \<Rightarrow> fluxInstall \<Rightarrow> string \<Rightarrow> trace \<Rightarrow> (err option) go \<times> fluxInstall \<times> trace" where
  "Install w sv f component tr =
     (case getComponentVersion sv (flux_repository f) (componentName f) (version f) of
        Inl e \<Rightarrow> (Val (Some (fmt_Errorf ''failed to get component version'' e)), f, tr)
      | Inr cv \<Rightarrow>
          (case getResources cv component of
             Panic p \<Rightarrow> (Panic p, f, tr)
           | Val (Inl e) \<Rightarrow> (Val (Some (fmt_Errorf ''failed to get resources'' e)), f, tr)
           | Val (Inr rs) \<Rightarrow>
               (let f1 = f\<lparr>flux_components := compomentsList rs\<rparr>
                in if componentResource rs = None \<or> ocmConfig rs = None then
                     (Val (Some (errors_New ''flux or ocm-config resource not found'')), f1, tr)
                   else
                     (case generateKustomization w f1 (the (componentResource rs))
                             (the (ocmConfig rs)) tr of
                        (Inl e, tr1) \<Rightarrow> (Val (Some e), f1, tr1)
                      | (Inr (kfile, kus), tr1) \<Rightarrow>
                          (case unMarshallConfig w (the (ocmConfig rs)) of
                             Inl e \<Rightarrow> (Val (Some e), f1, tr1)
                           | Inr kconfig \<Rightarrow>
                               (case generateGOTKComponent w f1 kconfig (imagesResources rs)
                                       kus kfile tr1 of
                                  (Inl e, tr2) \<Rightarrow> (Val (Some e), f1, tr2)
                                | (Inr res, tr2) \<Rightarrow>
                                    (case Install_reconcile w f1 res tr2 of
                                       (r, tr3) \<Rightarrow> (Val r, f1, tr3))))))))"

section \<open>Vocabulary of the statements\<close>

text \<open>
  A listed name parses when \<open>NewVersion\<close> accepts it; it satisfies a constraint when
  it parses and \<open>Check\<close> holds of the parsed version.
\<close>

definition parses :: "semver \<Rightarrow> string \<Rightarrow> bool" where
  "parses sv s = (case NewVersion sv s of Inl e \<Rightarrow> False | Inr v \<Rightarrow> True)"

definition satisfies :: "semver \<Rightarrow> (Version \<Rightarrow> bool) \<Rightarrow> string \<Rightarrow> bool" where
  "satisfies sv constraint s = (case NewVersion sv s of Inl e \<Rightarrow> False | Inr v \<Rightarrow> constraint v)"

text \<open>
  Test data for the examples: the answers of the semver library on the strings of the
  scenario (the constraint \<open>v0.1.x\<close>, three versions, anything else is rejected), and a
  repository with one component that lists given names and has a version for each
  name asked.
\<close>

definition scenario_constraint :: "Version \<Rightarrow> bool" where
  "scenario_constraint v = (major v = 0 \<and> minor v = 1)"

definition scenario_semver :: semver where
  "scenario_semver =
     \<lparr>NewConstraint = (\<lambda>s. if s = ''v0.1.x'' then Inr scenario_constraint
                            else Inl (LibError ''improper constraint'')),
      NewVersion = (\<lambda>s.
        if s = ''v0.1.0'' then
          Inr \<lparr>major = 0, minor = 1, patch = 0, pre = [], metadata = [], original = s\<rparr>
        else if s = ''v0.2.0'' then
          Inr \<lparr>major = 0, minor = 2, patch = 0, pre = [], metadata = [], original = s\<rparr>
        else if s = ''v0.1.1'' then
          Inr \<lparr>major = 0, minor = 1, patch = 1, pre = [], metadata = [], original = s\<rparr>
        else Inl (LibError ''Invalid Semantic Version''))\<rparr>"

definition scenario_repository :: "string list \<Rightarrow> Resource list \<Rightarrow> Repository" where
  "scenario_repository V rs =
     \<lparr>LookupComponent = (\<lambda>n.
        Inr \<lparr>ListVersions = Inr V,
             LookupVersion = (\<lambda>s. Inr \<lparr>GetVersion = s, GetResources = rs\<rparr>)\<rparr>)\<rparr>"

text \<open>
  Test data: a resource whose content reads without error, and an image resource with a
  given result of \<open>Access()\<close>.
\<close>

definition file_resource :: "string \<Rightarrow> bytes \<Rightarrow> Resource" where
  "file_resource n content =
     \<lparr>GetName = n, GetType = ''file'', Access = Inr (OtherAccessSpec ''localBlob''),
      AccessMethod = Inr (Inr (Inr (Inr content)))\<rparr>"

definition image_resource :: "string \<Rightarrow> err + AccessSpec \<Rightarrow> Resource" where
  "image_resource n a =
     \<lparr>GetName = n, GetType = ''ociImage'', Access = a,
      AccessMethod = Inl (LibError ''not read'')\<rparr>"

text \<open>
  The events after \<open>k\<close> failed calls of the closure of \<open>retry\<close>, each followed by
  the sleep; the removals that \<open>cleanGitRepoDir\<close> issues for a directory listing; the
  clone events.
\<close>

fun after_failures :: "nat \<Rightarrow> int \<Rightarrow> (trace \<Rightarrow> err option \<times> trace) \<Rightarrow> trace \<Rightarrow> trace" where
  "after_failures 0 wait fn tr = tr"
| "after_failures (Suc k) wait fn tr = after_failures k wait fn (snd (fn tr) @ [EvSleep wait])"

definition removals :: "env \<Rightarrow> string list \<Rightarrow> trace" where
  "removals w ds = map (\<lambda>d. EvRemoveAll (filepath_Join w (Path w) d)) ds"

fun is_clone :: "event \<Rightarrow> bool" where
  "is_clone (EvClone u b) = True"
| "is_clone ev = False"

text \<open>
  Test data: a world in which every call succeeds, the working copy has a head, the
  directory listing is empty and nothing has to be applied; an installer for a given
  repository.
\<close>

definition scenario_world :: env where
  "scenario_world =
     \<lparr>Head = (\<lambda>tr. None), Clone = (\<lambda>u b tr. None), Commit = (\<lambda>m p c tr. None),
      Push = (\<lambda>tr. None), Path = ''/tmp/flux-install'',
      os_ReadDir = (\<lambda>p tr. Inr []), os_RemoveAll = (\<lambda>p tr. None),
      os_Create = (\<lambda>p tr. None), os_Remove = (\<lambda>p tr. None),
      os_WriteFile = (\<lambda>p b tr. None), os_ReadFile = (\<lambda>p tr. Inr []),
      os_Stat = (\<lambda>p tr. None), filepath_Join = (\<lambda>a b. a @ ''/'' @ b),
      filepath_Dir = (\<lambda>p. p), yaml_Marshal = (\<lambda>k. Inr []),
      yaml_Unmarshal = (\<lambda>d k. Inr k), decoder_Decode = (\<lambda>d. Inr \<lparr>Localization = []\<rparr>),
      kustomize_Build = (\<lambda>d tr. Inr (Inr [])), MustInstallKustomization = (\<lambda>tr. False),
      kubeutils_Apply = (\<lambda>p tr. None), ReconcileSourceSecret = (\<lambda>tr. None),
      ReconcileSyncConfig = (\<lambda>u tr. None), ReportKustomizationHealth = (\<lambda>tr. None),
      ReportComponentsHealth = (\<lambda>cs tr. None), DefaultFluxHost = ''ghcr.io/fluxcd'',
      DefaultKustomizationFileName = ''kustomization.yaml''\<rparr>"

definition scenario_install :: "Repository \<Rightarrow> fluxInstall" where
  "scenario_install repo =
     \<lparr>componentName = ''flux'', version = ''v0.1.x'', flux_repository = repo,
      flux_components = [], flux_url = ''https://git.example/mpas.git'', testURL = [],
      transport = ''https'', branch = ''main'', targetPath = ''clusters'',
      namespace = ''flux-system'', flux_token = [], dir = ''/tmp/flux-install'',
      commitMessageAppendix = [], flux_interval = 0, flux_timeout = 0\<rparr>"

text \<open>
  Test data: a world without a local repository, in which the clone fails until the
  sleep of the retry has passed, and the directory holds one entry.
\<close>

definition flaky_world :: env where
  "flaky_world =
     scenario_world
       \<lparr>Head := (\<lambda>tr. Some ErrNoGitRepository),
        Clone := (\<lambda>u b tr. if EvSleep two_seconds \<in> set tr then None
                            else Some (LibError ''connection reset'')),
        os_ReadDir := (\<lambda>p tr. Inr [''partial''])\<rparr>"

text \<open>Test data: a bundle with the manifest, the config and one image.\<close>

definition good_bundle :: "Resource list" where
  "good_bundle =
     [file_resource ''flux'' ''manifest'', file_resource ''ocm-config'' ''config'',
      image_resource ''source-controller''
        (Inr (OciArtifactAccessSpec ''ghcr.io/fluxcd/source-controller:v1.0.0''))]"

text \<open>
  The errors that an error holds: itself, the error it wraps and the errors it joins, as
  \<open>errors.Is\<close> walks them.
\<close>

primrec causes :: "err \<Rightarrow> err list" where
  "causes ErrNoStagedFiles = [ErrNoStagedFiles]"
| "causes ErrNoGitRepository = [ErrNoGitRepository]"
| "causes (errors_New m) = [errors_New m]"
| "causes (fmt_Errorf m e) = fmt_Errorf m e # causes e"
| "causes (joinError es) = joinError es # concat (map causes es)"
| "causes (LibError m) = [LibError m]"

section \<open>Properties of the bootstrap options\<close>

lemma strings_TrimSuffix_slash:
  "strings_TrimSuffix (t @ ''/'') ''/'' = t"
  by (simp add: strings_TrimSuffix_def strings_HasSuffix_def)

lemma strings_TrimSuffix_cases:
  "strings_TrimSuffix t ''/'' = (if t \<noteq> [] \<and> last t = CHR ''/'' then butlast t else t)"
proof (cases t rule: rev_cases)
  case Nil
  then show ?thesis by (simp add: strings_TrimSuffix_def strings_HasSuffix_def)
next
  case (snoc ys y)
  then show ?thesis by (simp add: strings_TrimSuffix_def strings_HasSuffix_def)
qed

lemma setDefaults_cases:
  "setDefaults b =
     b\<lparr>opts := (opts b)
        \<lparr>description := (if description (opts b) = []
                          then ''Management repository for the Open Component Model''
                          else description (opts b)),
         defaultBranch := (if defaultBranch (opts b) = [] then ''main''
                           else defaultBranch (opts b)),
         visibility := (if visibility (opts b) = [] then ''private'' else visibility (opts b)),
         transportType := (if transportType (opts b) = [] then ''https''
                           else transportType (opts b))\<rparr>\<rparr>"
  unfolding setDefaults_def Let_def
  by (cases "description (opts b) = []"; cases "defaultBranch (opts b) = []";
      cases "visibility (opts b) = []"; cases "transportType (opts b) = []"; simp)

text \<open>
  What holds of \<open>New\<close> for every list of options and every store: when no option is
  nil, the four string options \<open>description\<close>, \<open>defaultBranch\<close>, \<open>visibility\<close> and
  \<open>transportType\<close> have their fixed defaults exactly where the options left them
  empty, a non-empty value stays, and every other field is what the options made it.
\<close>

lemma New_fills_defaults:
  assumes "apply_opts optlist cs zero_options = Val (cs1, o1)"
  shows "\<exists>b. New pc optlist cs = Val (b, cs1) \<and> ProviderClient b = pc \<and>
           opts b = o1
             \<lparr>description := (if description o1 = []
                               then ''Management repository for the Open Component Model''
                               else description o1),
              defaultBranch := (if defaultBranch o1 = [] then ''main'' else defaultBranch o1),
              visibility := (if visibility o1 = [] then ''private'' else visibility o1),
              transportType := (if transportType o1 = [] then ''https'' else transportType o1)\<rparr>"
  using assms by (simp add: New_def setDefaults_cases)

text \<open>
  The first invocation of a closure of \<open>WithTarget\<close> stores the target without one
  trailing slash, and leaves a closure over the trimmed target: the next invocation of
  the same \<open>Option\<close> value trims once more.
\<close>

lemma invoke_WithTarget_twice:
  "invoke (WithTarget_func t) o1 =
     (WithTarget_func (strings_TrimSuffix t ''/''), o1\<lparr>target := strings_TrimSuffix t ''/''\<rparr>) \<and>
   invoke (fst (invoke (WithTarget_func t) o1)) o2 =
     (WithTarget_func (strings_TrimSuffix (strings_TrimSuffix t ''/'') ''/''),
      o2\<lparr>target := strings_TrimSuffix (strings_TrimSuffix t ''/'') ''/''\<rparr>)"
  by simp

lemma TrimSuffix_clusters [simp]:
  "strings_TrimSuffix ''clusters//'' ''/'' = ''clusters/''"
  "strings_TrimSuffix ''clusters/'' ''/'' = ''clusters''"
  "strings_TrimSuffix ''clusters'' ''/'' = ''clusters''"
  by (simp_all add: strings_TrimSuffix_def strings_HasSuffix_def)

text \<open>
  Claim C10 holds of the defaults and of an option value that is invoked once, and the
  code breaks its last clause for an option value that is invoked again.
  \<open>WithTarget("clusters//")\<close> gives one closure. Passed once to \<open>New\<close> it stores
  \<open>clusters/\<close>, one trailing slash removed. Passed to a second \<open>New\<close>, as when a
  slice of options is used for two Bootstraps, it stores \<open>clusters\<close>; passed twice to
  one \<open>New\<close> it stores \<open>clusters\<close> as well: the literal has assigned the trimmed
  value to the parameter it captured. The other three fields shown have their defaults.
\<close>

theorem WithTarget_reused_option_trims_again:
  "WithTarget ''clusters//'' [] = (0, [WithTarget_func ''clusters//'']) \<and>
   (case New 7 [0] [WithTarget_func ''clusters//''] of
      Panic p \<Rightarrow> ([], [], [], [])
    | Val (b, cs) \<Rightarrow> (target (opts b), map (\<lambda>c. case c of WithTarget_func t \<Rightarrow> t | _ \<Rightarrow> []) cs,
                      defaultBranch (opts b), visibility (opts b)))
     = (''clusters/'', [''clusters/''], ''main'', ''private'') \<and>
   (case New 7 [0] [WithTarget_func ''clusters/''] of
      Panic p \<Rightarrow> ([], [], [], [])
    | Val (b, cs) \<Rightarrow> (target (opts b), map (\<lambda>c. case c of WithTarget_func t \<Rightarrow> t | _ \<Rightarrow> []) cs,
                      defaultBranch (opts b), visibility (opts b)))
     = (''clusters'', [''clusters''], ''main'', ''private'') \<and>
   (case New 7 [0, 0] [WithTarget_func ''clusters//''] of
      Panic p \<Rightarrow> ([], [], [], [])
    | Val (b, cs) \<Rightarrow> (target (opts b), map (\<lambda>c. case c of WithTarget_func t \<Rightarrow> t | _ \<Rightarrow> []) cs,
                      defaultBranch (opts b), visibility (opts b)))
     = (''clusters'', [''clusters''], ''main'', ''private'')"
  by (simp add: WithTarget_def new_closure_def New_def setDefaults_cases zero_options_def)

section \<open>Properties of version resolution\<close>

lemma find_version_first:
  assumes "\<forall>s \<in> set (takeWhile (\<lambda>s. \<not> satisfies sv constraint s) V). parses sv s"
  shows "find_version sv constraint V =
           Inr (map_option (\<lambda>x. projr (NewVersion sv x)) (List.find (satisfies sv constraint) V))"
  using assms
  by (induction V) (auto simp: satisfies_def parses_def split: sum.splits)

lemma find_version_malformed:
  assumes "NewVersion sv bad = Inl e"
    and "\<forall>s \<in> set earlier. parses sv s \<and> \<not> satisfies sv constraint s"
  shows "find_version sv constraint (earlier @ bad # later) = Inl e"
  using assms
  by (induction earlier) (auto simp: satisfies_def parses_def split: sum.splits)

lemma scenario_parses [simp]:
  "parses scenario_semver s = (s = ''v0.1.0'' \<or> s = ''v0.2.0'' \<or> s = ''v0.1.1'')"
  by (simp add: parses_def scenario_semver_def)

lemma scenario_satisfies [simp]:
  "satisfies scenario_semver scenario_constraint s = (s = ''v0.1.0'' \<or> s = ''v0.1.1'')"
  by (auto simp: satisfies_def scenario_semver_def scenario_constraint_def)

lemma scenario_NewConstraint [simp]:
  "NewConstraint scenario_semver ''v0.1.x'' = Inr scenario_constraint"
  by (simp add: scenario_semver_def)

lemma scenario_NewVersion_rejects [simp]:
  "s \<noteq> ''v0.1.0'' \<Longrightarrow> s \<noteq> ''v0.2.0'' \<Longrightarrow> s \<noteq> ''v0.1.1'' \<Longrightarrow>
   NewVersion scenario_semver s = Inl (LibError ''Invalid Semantic Version'')"
  by (simp add: scenario_semver_def)

lemma scenario_NewVersion_original:
  "NewVersion scenario_semver s = Inr v \<Longrightarrow> original v = s"
  by (auto simp: scenario_semver_def split: if_splits)

lemma scenario_NewVersion_v010 [simp]:
  "NewVersion scenario_semver ''v0.1.0'' =
     Inr \<lparr>major = 0, minor = 1, patch = 0, pre = [], metadata = [], original = ''v0.1.0''\<rparr>"
  by (simp add: scenario_semver_def)

text \<open>
  Claim C1, as stated, fails: with the listing \<open>["latest", "v0.1.0"]\<close> and the
  constraint \<open>v0.1.x\<close> the first listed name that satisfies the constraint is
  \<open>v0.1.0\<close>, and the resolution returns the parse error of \<open>latest\<close>.
\<close>

theorem getComponentVersion_unparsable_first_counterexample:
  "List.find (satisfies scenario_semver scenario_constraint) [''latest'', ''v0.1.0'']
     = Some ''v0.1.0'' \<and>
   getComponentVersion scenario_semver (scenario_repository [''latest'', ''v0.1.0''] [])
     ''flux'' ''v0.1.x'' = Inl (LibError ''Invalid Semantic Version'')"
  by (simp add: getComponentVersion_def scenario_repository_def)

text \<open>
  Claim C1, amended. When the component is found, its listing is \<open>V\<close>, the constraint
  parses, and every listed name before the first one that satisfies the constraint
  parses (every listed name, when none satisfies it), the resolution returns what the
  repository's \<open>LookupVersion\<close> gives for the first name of \<open>V\<close>, in listing order,
  that satisfies the constraint, and the error \<open>no matching version found\<close> when no
  name of \<open>V\<close> satisfies it. The library's \<open>Original()\<close> is the parsed string.
\<close>

theorem getComponentVersion_first_match:
  assumes "LookupComponent repo cname = Inr c" and "ListVersions c = Inr V"
    and "NewConstraint sv C = Inr constraint"
    and orig: "\<forall>s v. NewVersion sv s = Inr v \<longrightarrow> original v = s"
    and "\<forall>s \<in> set (takeWhile (\<lambda>s. \<not> satisfies sv constraint s) V). parses sv s"
  shows "getComponentVersion sv repo cname C =
           (case List.find (satisfies sv constraint) V of
              None \<Rightarrow> Inl (errors_New ''no matching version found'')
            | Some x \<Rightarrow> LookupVersion c x)"
proof (cases "List.find (satisfies sv constraint) V")
  case None
  with assms show ?thesis
    by (simp add: getComponentVersion_def find_version_first)
next
  case (Some x)
  then have "satisfies sv constraint x" by (auto simp: find_Some_iff)
  then obtain v where v: "NewVersion sv x = Inr v"
    by (auto simp: satisfies_def split: sum.splits)
  with orig have "original v = x" by blast
  with assms Some v show ?thesis
    by (simp add: getComponentVersion_def find_version_first)
qed

text \<open>
  The scenario of the specification: \<open>v0.1.x\<close> against
  \<open>["v0.1.0", "v0.2.0", "v0.1.1"]\<close> resolves to \<open>v0.1.0\<close>; against
  \<open>["v0.2.0"]\<close> no version matches.
\<close>

theorem getComponentVersion_first_match_witness:
  "getComponentVersion scenario_semver (scenario_repository [''v0.1.0'', ''v0.2.0'', ''v0.1.1''] [])
     ''flux'' ''v0.1.x'' = Inr \<lparr>GetVersion = ''v0.1.0'', GetResources = []\<rparr> \<and>
   getComponentVersion scenario_semver (scenario_repository [''v0.2.0''] [])
     ''flux'' ''v0.1.x'' = Inl (errors_New ''no matching version found'')"
proof -
  let ?c = "\<lambda>V. \<lparr>ListVersions = Inr V,
                  LookupVersion = (\<lambda>s. Inr \<lparr>GetVersion = s, GetResources = []\<rparr>)\<rparr>"
  let ?k = "scenario_constraint"
  have look: "LookupComponent (scenario_repository V []) ''flux'' = Inr (?c V)" for V
    by (simp add: scenario_repository_def)
  have list: "ListVersions (?c V) = Inr V" for V by simp
  have con: "NewConstraint scenario_semver ''v0.1.x'' = Inr ?k"
    by simp
  have orig: "\<forall>s v. NewVersion scenario_semver s = Inr v \<longrightarrow> original v = s"
    using scenario_NewVersion_original by blast
  have p1: "\<forall>s \<in> set (takeWhile (\<lambda>s. \<not> satisfies scenario_semver ?k s)
                         [''v0.1.0'', ''v0.2.0'', ''v0.1.1'']). parses scenario_semver s"
    by simp
  have p2: "\<forall>s \<in> set (takeWhile (\<lambda>s. \<not> satisfies scenario_semver ?k s) [''v0.2.0'']).
              parses scenario_semver s"
    by simp
  show ?thesis
    using getComponentVersion_first_match [OF look list con orig p1]
      getComponentVersion_first_match [OF look list con orig p2]
    by simp
qed

text \<open>
  Claim C2, as stated, fails: in the listing \<open>["v0.1.0", "latest"]\<close> the name
  \<open>latest\<close> does not parse, and with the constraint \<open>v0.1.x\<close> the resolution
  succeeds with \<open>v0.1.0\<close>: the loop ends at the first match and never parses the
  names after it.
\<close>

theorem getComponentVersion_unparsable_later_counterexample:
  "\<not> parses scenario_semver ''latest'' \<and>
   getComponentVersion scenario_semver (scenario_repository [''v0.1.0'', ''latest''] [])
     ''flux'' ''v0.1.x'' = Inr \<lparr>GetVersion = ''v0.1.0'', GetResources = []\<rparr>"
  by (simp add: getComponentVersion_def scenario_repository_def scenario_constraint_def)

text \<open>
  Claim C2, amended. When the component is found and the constraint parses, a listed
  name that does not parse makes the whole resolution fail with its parse error,
  whatever the constraint, provided no name listed before it satisfies the constraint
  (and the names before it parse): names after the first match are never parsed.
\<close>

theorem getComponentVersion_malformed_before_match:
  assumes "LookupComponent repo cname = Inr c" and "ListVersions c = Inr (earlier @ bad # later)"
    and "NewConstraint sv C = Inr constraint"
    and "NewVersion sv bad = Inl e"
    and "\<forall>s \<in> set earlier. parses sv s \<and> \<not> satisfies sv constraint s"
  shows "getComponentVersion sv repo cname C = Inl e"
  using assms by (simp add: getComponentVersion_def find_version_malformed)

theorem getComponentVersion_malformed_before_match_witness:
  "getComponentVersion scenario_semver (scenario_repository [''v0.2.0'', ''latest'', ''v0.1.0''] [])
     ''flux'' ''v0.1.x'' = Inl (LibError ''Invalid Semantic Version'')"
proof -
  let ?c = "\<lparr>ListVersions = Inr [''v0.2.0'', ''latest'', ''v0.1.0''],
             LookupVersion = (\<lambda>s. Inr \<lparr>GetVersion = s, GetResources = []\<rparr>)\<rparr>"
  let ?k = "scenario_constraint"
  have look: "LookupComponent (scenario_repository [''v0.2.0'', ''latest'', ''v0.1.0''] []) ''flux''
                = Inr ?c"
    by (simp add: scenario_repository_def)
  have list: "ListVersions ?c = Inr ([''v0.2.0''] @ ''latest'' # [''v0.1.0''])" by simp
  have con: "NewConstraint scenario_semver ''v0.1.x'' = Inr ?k"
    by simp
  have bad: "NewVersion scenario_semver ''latest'' = Inl (LibError ''Invalid Semantic Version'')"
    by simp
  have earlier: "\<forall>s \<in> set [''v0.2.0'']. parses scenario_semver s \<and> \<not> satisfies scenario_semver ?k s"
    by simp
  show ?thesis
    using getComponentVersion_malformed_before_match [OF look list con bad earlier] by simp
qed

section \<open>Properties of coordinate parsing\<close>

lemma strings_Split_nonempty: "strings_Split s sep \<noteq> []"
  by (induction s) (auto split: list.splits)

lemma strings_Split_no_sep: "sep \<notin> set t \<Longrightarrow> strings_Split t sep = [t]"
  by (induction t) auto

lemma strings_Split_prefix:
  "sep \<notin> set n \<Longrightarrow> strings_Split (n @ sep # rest) sep = n # strings_Split rest sep"
  by (induction n) auto

lemma strings_Split_two:
  assumes "sep \<notin> set n" "sep \<notin> set t" "r = [] \<or> hd r = sep"
  shows "\<exists>ps. strings_Split (n @ sep # t @ r) sep = n # t # ps"
proof (cases r)
  case Nil
  with assms show ?thesis by (simp add: strings_Split_prefix strings_Split_no_sep)
next
  case (Cons a r')
  with assms have "a = sep" by simp
  with Cons assms show ?thesis by (simp add: strings_Split_prefix)
qed

text \<open>
  What holds: a reference with exactly one colon is split at it.
\<close>

lemma getResourceRef_one_colon:
  assumes "CHR '':'' \<notin> set n" and "CHR '':'' \<notin> set t"
  shows "getResourceRef (resource\<lparr>Access := Inr (OciArtifactAccessSpec (n @ CHR '':'' # t))\<rparr>)
           = Val (n, t)"
proof -
  have "([]::string) = [] \<or> hd ([]::string) = CHR '':''" by simp
  from strings_Split_two [OF assms this]
  obtain ps where "strings_Split (n @ CHR '':'' # t) (CHR '':'') = n # t # ps" by auto
  then show ?thesis by (simp add: getResourceRef_def)
qed

text \<open>
  Claim C3 is not what the code does on references with another number of colons. The
  code assigns pieces 0 and 1 of the split at every colon to \<open>name\<close> and
  \<open>version\<close>: with a registry port the name is the host and the tag is the port and
  path, where the split at the last colon gives the name with the port and the tag
  \<open>v1.0.0\<close>; a digest reference and a reference with tag and digest are cut inside
  the digest; none of them is rejected. A reference without a colon makes the index
  expression panic.
\<close>

theorem getResourceRef_registry_port_misparsed:
  "getResourceRef (image_resource ''source-controller''
      (Inr (OciArtifactAccessSpec ''localhost:5000/fluxcd/source-controller:v1.0.0'')))
     = Val (''localhost'', ''5000/fluxcd/source-controller'') \<and>
   getResourceRef (image_resource ''source-controller''
      (Inr (OciArtifactAccessSpec ''localhost:5000/fluxcd/source-controller:v1.0.0'')))
     \<noteq> Val (''localhost:5000/fluxcd/source-controller'', ''v1.0.0'') \<and>
   getResourceRef (image_resource ''source-controller''
      (Inr (OciArtifactAccessSpec ''ghcr.io/fluxcd/source-controller@sha256:0a1b'')))
     = Val (''ghcr.io/fluxcd/source-controller@sha256'', ''0a1b'') \<and>
   getResourceRef (image_resource ''source-controller''
      (Inr (OciArtifactAccessSpec ''ghcr.io/fluxcd/source-controller:v1.0.0@sha256:0a1b'')))
     = Val (''ghcr.io/fluxcd/source-controller'', ''v1.0.0@sha256'') \<and>
   getResourceRef (image_resource ''source-controller''
      (Inr (OciArtifactAccessSpec ''ghcr.io/fluxcd/source-controller'')))
     = Panic ''index out of range [1] with length 1''"
  by (simp add: getResourceRef_def image_resource_def)

section \<open>Properties of manifest generation\<close>

lemma append_images_map:
  "append_images host imgs locs kus =
     kus\<lparr>Images := Images kus @
        map (\<lambda>loc. \<lparr>Image_Name = host @ ''/'' @ Resource_Name loc,
                     Image_NewName = (case imgs (Resource_Name loc) of None \<Rightarrow> [] | Some c \<Rightarrow> Name c),
                     Image_NewTag = (case imgs (Resource_Name loc) of None \<Rightarrow> [] | Some c \<Rightarrow> Tag c)\<rparr>)
          locs\<rparr>"
  by (induction locs arbitrary: kus)
     (simp_all add: lookup_image_def Let_def split: option.splits)

text \<open>
  Claim C4, as stated, fails: a rule whose resource name has no extracted coordinate is
  not skipped. With no coordinates at all, the rule for \<open>source-controller\<close> emits an
  entry, with empty replacement name and tag.
\<close>

theorem append_images_unmatched_counterexample:
  "Images (append_images ''ghcr.io/fluxcd'' Map.empty [\<lparr>Resource_Name = ''source-controller''\<rparr>]
             empty_kustomization)
     = [\<lparr>Image_Name = ''ghcr.io/fluxcd/source-controller'', Image_NewName = [],
         Image_NewTag = []\<rparr>]"
  by (simp add: empty_kustomization_def lookup_image_def)

text \<open>
  Claim C4, amended. Manifest generation builds the kustomization to which every
  localization rule of the parsed config, in order, has added exactly one image-override
  entry: its target name is the default host, a slash and the rule's resource name; its
  replacement name and tag are those of the coordinate extracted under that resource
  name, and the empty strings when there is none. No rule is skipped, and the resource
  list is unchanged.
\<close>

theorem generateGOTKComponent_one_entry_per_rule:
  "generateGOTKComponent w f kconfig imgs kus kfile tr =
     buildKustomization w
       (kus\<lparr>Images := Images kus @
          map (\<lambda>loc. \<lparr>Image_Name = DefaultFluxHost w @ ''/'' @ Resource_Name loc,
                       Image_NewName = (case imgs (Resource_Name loc) of None \<Rightarrow> [] | Some c \<Rightarrow> Name c),
                       Image_NewTag = (case imgs (Resource_Name loc) of None \<Rightarrow> [] | Some c \<Rightarrow> Tag c)\<rparr>)
            (Localization kconfig)\<rparr>)
       kfile (dir f) tr \<and>
   length (Images (append_images host imgs locs kus)) = length (Images kus) + length locs \<and>
   Resources (append_images host imgs locs kus) = Resources kus"
  by (simp add: generateGOTKComponent_def append_images_map)

section \<open>Properties of the Git reconciler\<close>

lemma retry_from_attempts:
  "i \<le> n \<Longrightarrow>
   \<exists>k \<le> nat (n - i). retry_from i n wait fn tr = fn (after_failures k wait fn tr) \<and>
      (\<forall>j<k. fst (fn (after_failures j wait fn tr)) \<noteq> None) \<and>
      (k < nat (n - i) \<longrightarrow> fst (fn (after_failures k wait fn tr)) = None)"
proof (induction i n wait fn tr rule: retry_from.induct)
  case (1 i retries wait fn tr)
  obtain r tr1 where fn: "fn tr = (r, tr1)" by (cases "fn tr")
  show ?case
  proof (cases r)
    case None
    with fn have "retry_from i retries wait fn tr = fn (after_failures 0 wait fn tr)"
      by (subst retry_from.simps) simp
    moreover from None fn have "fst (fn (after_failures 0 wait fn tr)) = None" by simp
    ultimately show ?thesis by (intro exI [of _ 0]) simp
  next
    case (Some e)
    show ?thesis
    proof (cases "i \<ge> retries")
      case True
      with Some fn have "retry_from i retries wait fn tr = fn (after_failures 0 wait fn tr)"
        by (subst retry_from.simps) simp
      moreover from True "1.prems" have "nat (retries - i) = 0" by simp
      ultimately show ?thesis by (intro exI [of _ 0]) simp
    next
      case False
      then have le: "i + 1 \<le> retries" by simp
      from "1.IH" [OF fn [symmetric] Some False le]
      obtain k where k: "k \<le> nat (retries - (i + 1))"
        and eq: "retry_from (i + 1) retries wait fn (tr1 @ [EvSleep wait]) =
                   fn (after_failures k wait fn (tr1 @ [EvSleep wait]))"
        and fails: "\<forall>j<k. fst (fn (after_failures j wait fn (tr1 @ [EvSleep wait]))) \<noteq> None"
        and last: "k < nat (retries - (i + 1)) \<longrightarrow>
                     fst (fn (after_failures k wait fn (tr1 @ [EvSleep wait]))) = None"
        by blast
      have step: "after_failures (Suc j) wait fn tr = after_failures j wait fn (tr1 @ [EvSleep wait])" for j
        using fn by simp
      have "retry_from i retries wait fn tr = fn (after_failures (Suc k) wait fn tr)"
        using fn Some False eq by (subst retry_from.simps) (simp add: step del: after_failures.simps)
      moreover have "\<forall>j<Suc k. fst (fn (after_failures j wait fn tr)) \<noteq> None"
      proof (intro allI impI)
        fix j assume "j < Suc k"
        show "fst (fn (after_failures j wait fn tr)) \<noteq> None"
        proof (cases j)
          case 0
          with fn Some show ?thesis by simp
        next
          case (Suc j')
          with \<open>j < Suc k\<close> fails show ?thesis by (simp add: step del: after_failures.simps)
        qed
      qed
      moreover have "Suc k < nat (retries - i) \<longrightarrow> fst (fn (after_failures (Suc k) wait fn tr)) = None"
        using last False by (simp add: step del: after_failures.simps) 
      moreover have "Suc k \<le> nat (retries - i)" using k False by simp
      ultimately show ?thesis by (intro exI [of _ "Suc k"]) blast
    qed
  qed
qed

lemma retry_attempts:
  "0 \<le> n \<Longrightarrow>
   \<exists>k \<le> nat n. retry n wait fn tr = fn (after_failures k wait fn tr) \<and>
      (\<forall>j<k. fst (fn (after_failures j wait fn tr)) \<noteq> None) \<and>
      (k < nat n \<longrightarrow> fst (fn (after_failures k wait fn tr)) = None)"
  using retry_from_attempts [of 0 n wait fn tr] by (simp add: retry_def)

lemma retry_once:
  "retry 1 wait fn tr =
     (case fn tr of
        (None, t1) \<Rightarrow> (None, t1)
      | (Some e1, t1) \<Rightarrow> fn (t1 @ [EvSleep wait]))"
  by (simp add: retry_def split: prod.splits option.splits)


lemma errors_Join_Some [simp]: "errors_Join [a, Some e] \<noteq> None"
  by (cases a) (simp_all add: errors_Join_def List.map_filter_def)

lemma errors_Join_None_Some [simp]: "errors_Join [None, Some e] = Some (joinError [e])"
  by (simp add: errors_Join_def List.map_filter_def)

lemma errors_Join_Some_Some [simp]: "errors_Join [Some a, Some e] = Some (joinError [a, e])"
  by (simp add: errors_Join_def List.map_filter_def)

lemma remove_entries_trace:
  "snd (remove_entries w ds acc tr) = tr @ removals w ds"
  by (induction ds arbitrary: acc tr) (simp_all add: removals_def Let_def split: option.splits)

lemma remove_entries_ok:
  "fst (remove_entries w ds acc tr) = None \<longleftrightarrow>
     acc = None \<and>
     (\<forall>i<length ds. os_RemoveAll w (filepath_Join w (Path w) (ds ! i))
                       (tr @ removals w (take i ds)) = None)"
proof (induction ds arbitrary: acc tr)
  case Nil
  show ?case by simp
next
  case (Cons d ds)
  let ?p = "filepath_Join w (Path w) d"
  have shift: "(\<forall>i<length (d # ds). os_RemoveAll w (filepath_Join w (Path w) ((d # ds) ! i))
                   (tr @ removals w (take i (d # ds))) = None) \<longleftrightarrow>
               os_RemoveAll w ?p tr = None \<and>
               (\<forall>i<length ds. os_RemoveAll w (filepath_Join w (Path w) (ds ! i))
                   ((tr @ [EvRemoveAll ?p]) @ removals w (take i ds)) = None)"
    (is "?L \<longleftrightarrow> ?R")
  proof
    assume L: ?L
    from L [rule_format, of 0] have "os_RemoveAll w ?p tr = None" by (simp add: removals_def)
    moreover have "os_RemoveAll w (filepath_Join w (Path w) (ds ! i))
                   ((tr @ [EvRemoveAll ?p]) @ removals w (take i ds)) = None" if "i < length ds" for i
      using L [rule_format, of "Suc i"] that by (simp add: removals_def)
    ultimately show ?R by blast
  next
    assume R: ?R
    show ?L
    proof (intro allI impI)
      fix i assume "i < length (d # ds)"
      then show "os_RemoveAll w (filepath_Join w (Path w) ((d # ds) ! i))
                   (tr @ removals w (take i (d # ds))) = None"
        using R by (cases i) (simp_all add: removals_def)
    qed
  qed
  show ?case
  proof (cases "os_RemoveAll w ?p tr")
    case None
    then show ?thesis using Cons.IH [of acc "tr @ [EvRemoveAll ?p]"] shift by (simp add: Let_def)
  next
    case (Some er)
    have "fst (remove_entries w ds (errors_Join [acc, Some er]) (tr @ [EvRemoveAll ?p])) \<noteq> None"
      using Cons.IH [of "errors_Join [acc, Some er]" "tr @ [EvRemoveAll ?p]"] by simp
    with Some have l: "fst (remove_entries w (d # ds) acc tr) \<noteq> None" by (simp add: Let_def)
    from Some shift have r: "\<not> (\<forall>i<length (d # ds). os_RemoveAll w (filepath_Join w (Path w) ((d # ds) ! i))
                   (tr @ removals w (take i (d # ds))) = None)" by simp
    from l r show ?thesis by blast
  qed
qed

lemma cleanGitRepoDir_trace:
  "snd (cleanGitRepoDir w tr) =
     tr @ EvReadDir (Path w) #
       (case os_ReadDir w (Path w) tr of Inl er \<Rightarrow> [] | Inr ds \<Rightarrow> removals w ds)"
  by (simp add: cleanGitRepoDir_def remove_entries_trace split: sum.splits)

lemma cleanGitRepoDir_ok:
  "fst (cleanGitRepoDir w tr) = None \<longleftrightarrow>
     (\<exists>ds. os_ReadDir w (Path w) tr = Inr ds \<and>
        (\<forall>i<length ds. os_RemoveAll w (filepath_Join w (Path w) (ds ! i))
                          (tr @ EvReadDir (Path w) # removals w (take i ds)) = None))"
  by (simp add: cleanGitRepoDir_def remove_entries_ok split: sum.splits)

lemma clone_attempt_cases:
  "clone_attempt w f tr =
     (case fst (cleanGitRepoDir w tr) of
        None \<Rightarrow> (Clone w (flux_url f) (branch f) (snd (cleanGitRepoDir w tr)),
                 snd (cleanGitRepoDir w tr) @ [EvClone (flux_url f) (branch f)])
      | Some e \<Rightarrow> (Some (fmt_Errorf ''failed to clean git repository directory'' e),
                   snd (cleanGitRepoDir w tr)))"
  by (simp add: clone_attempt_def split: prod.splits option.splits)

lemma is_clone_removals [simp]: "filter is_clone (removals w ds) = []"
  by (induction ds) (simp_all add: removals_def)

lemma clone_attempt_clones:
  "length (filter is_clone (snd (clone_attempt w f tr))) \<le> length (filter is_clone tr) + 1"
  by (simp add: clone_attempt_cases cleanGitRepoDir_trace split: option.splits sum.splits)

lemma cloneRepository_cases:
  "cloneRepository w f tr =
     (case Head w tr of
        None \<Rightarrow> (None, tr @ [EvHead])
      | Some e \<Rightarrow>
          if e \<noteq> ErrNoGitRepository then (Some e, tr @ [EvHead])
          else
            (case clone_attempt w f (tr @ [EvHead]) of
               (None, t1) \<Rightarrow> (None, t1)
             | (Some e1, t1) \<Rightarrow>
                 (case clone_attempt w f (t1 @ [EvSleep two_seconds]) of
                    (None, t2) \<Rightarrow> (None, t2)
                  | (Some e2, t2) \<Rightarrow> (Some (fmt_Errorf ''failed to clone repository'' e2), t2))))"
  by (simp add: cloneRepository_def retry_once split: option.splits prod.splits)

lemma cloneRepository_clones:
  "length (filter is_clone (snd (cloneRepository w f tr))) \<le> length (filter is_clone tr) + 2"
proof -
  have a: "length (filter is_clone (snd (clone_attempt w f (tr @ [EvHead])))) \<le> length (filter is_clone tr) + 1"
    using clone_attempt_clones [of w f "tr @ [EvHead]"] by simp
  have b: "length (filter is_clone (snd (clone_attempt w f (t1 @ [EvSleep two_seconds]))))
             \<le> length (filter is_clone t1) + 1" for t1
    using clone_attempt_clones [of w f "t1 @ [EvSleep two_seconds]"] by simp
  show ?thesis
  proof (cases "Head w tr")
    case None
    then show ?thesis by (simp add: cloneRepository_cases)
  next
    case (Some e)
    show ?thesis
    proof (cases "e = ErrNoGitRepository")
      case False
      with Some show ?thesis by (simp add: cloneRepository_cases)
    next
      case True
      obtain r1 t1 where c1: "clone_attempt w f (tr @ [EvHead]) = (r1, t1)"
        by (cases "clone_attempt w f (tr @ [EvHead])")
      obtain r2 t2 where c2: "clone_attempt w f (t1 @ [EvSleep two_seconds]) = (r2, t2)"
        by (cases "clone_attempt w f (t1 @ [EvSleep two_seconds])")
      from a c1 have a': "length (filter is_clone t1) \<le> length (filter is_clone tr) + 1" by simp
      from b [of t1] c2 have b': "length (filter is_clone t2) \<le> length (filter is_clone t1) + 1" by simp
      from Some True c1 c2 a' b' show ?thesis
        by (cases r1; cases r2) (simp_all add: cloneRepository_cases)
    qed
  qed
qed

lemma retry_negative: "n < 0 \<Longrightarrow> retry n wait fn tr = fn tr"
  by (cases "fn tr") (simp add: retry_def split: option.splits)

text \<open>
  Claim C8. In \<open>cloneRepository\<close> a head probe without error ends the function, a
  head-probe error other than "no repository present" is returned as it is, and on "no
  repository present" the clone closure runs, and runs once more after a sleep of two
  seconds when it failed: at most two clone attempts; a second failure is returned
  wrapped as "failed to clone repository". Every run of the closure first lists the
  directory and removes every listed entry, and clones only when the listing and all
  removals succeeded. For a retry count \<open>n\<close>, which is not negative (the only call
  passes 1), \<open>retry n wait fn\<close> calls \<open>fn\<close> at most \<open>n + 1\<close> times, sleeping
  between the calls, stops at the first call that returns nil and returns the result of
  its last call, so it succeeds exactly when some call returns nil. (The loop calls
  \<open>fn\<close> before it looks at the count; a negative count would give one call.)
\<close>

theorem cloneRepository_retries_once:
  "(Head w tr = None \<longrightarrow> cloneRepository w f tr = (None, tr @ [EvHead])) \<and>
   (\<forall>e. Head w tr = Some e \<and> e \<noteq> ErrNoGitRepository \<longrightarrow>
        cloneRepository w f tr = (Some e, tr @ [EvHead])) \<and>
   (Head w tr = Some ErrNoGitRepository \<longrightarrow>
      cloneRepository w f tr =
        (case clone_attempt w f (tr @ [EvHead]) of
           (None, t1) \<Rightarrow> (None, t1)
         | (Some e1, t1) \<Rightarrow>
             (case clone_attempt w f (t1 @ [EvSleep two_seconds]) of
                (None, t2) \<Rightarrow> (None, t2)
              | (Some e2, t2) \<Rightarrow> (Some (fmt_Errorf ''failed to clone repository'' e2), t2)))) \<and>
   length (filter is_clone (snd (cloneRepository w f tr))) \<le> length (filter is_clone tr) + 2 \<and>
   clone_attempt w f tr =
     (case fst (cleanGitRepoDir w tr) of
        None \<Rightarrow> (Clone w (flux_url f) (branch f) (snd (cleanGitRepoDir w tr)),
                 snd (cleanGitRepoDir w tr) @ [EvClone (flux_url f) (branch f)])
      | Some e \<Rightarrow> (Some (fmt_Errorf ''failed to clean git repository directory'' e),
                   snd (cleanGitRepoDir w tr))) \<and>
   snd (cleanGitRepoDir w tr) =
     tr @ EvReadDir (Path w) #
       (case os_ReadDir w (Path w) tr of Inl er \<Rightarrow> [] | Inr ds \<Rightarrow> removals w ds) \<and>
   (fst (cleanGitRepoDir w tr) = None \<longleftrightarrow>
     (\<exists>ds. os_ReadDir w (Path w) tr = Inr ds \<and>
        (\<forall>i<length ds. os_RemoveAll w (filepath_Join w (Path w) (ds ! i))
                          (tr @ EvReadDir (Path w) # removals w (take i ds)) = None))) \<and>
   (0 \<le> n \<longrightarrow>
     (\<exists>k \<le> nat n. retry n wait fn tr = fn (after_failures k wait fn tr) \<and>
        (\<forall>j<k. fst (fn (after_failures j wait fn tr)) \<noteq> None) \<and>
        (k < nat n \<longrightarrow> fst (fn (after_failures k wait fn tr)) = None))) \<and>
   (n < 0 \<longrightarrow> retry n wait fn tr = fn tr)"
proof (intro conjI)
  show "Head w tr = None \<longrightarrow> cloneRepository w f tr = (None, tr @ [EvHead])"
    by (simp add: cloneRepository_cases)
  show "\<forall>e. Head w tr = Some e \<and> e \<noteq> ErrNoGitRepository \<longrightarrow>
          cloneRepository w f tr = (Some e, tr @ [EvHead])"
    by (simp add: cloneRepository_cases)
  show "Head w tr = Some ErrNoGitRepository \<longrightarrow>
      cloneRepository w f tr =
        (case clone_attempt w f (tr @ [EvHead]) of
           (None, t1) \<Rightarrow> (None, t1)
         | (Some e1, t1) \<Rightarrow>
             (case clone_attempt w f (t1 @ [EvSleep two_seconds]) of
                (None, t2) \<Rightarrow> (None, t2)
              | (Some e2, t2) \<Rightarrow> (Some (fmt_Errorf ''failed to clone repository'' e2), t2)))"
    by (simp add: cloneRepository_cases)
  show "length (filter is_clone (snd (cloneRepository w f tr))) \<le> length (filter is_clone tr) + 2"
    by (rule cloneRepository_clones)
  show "clone_attempt w f tr =
     (case fst (cleanGitRepoDir w tr) of
        None \<Rightarrow> (Clone w (flux_url f) (branch f) (snd (cleanGitRepoDir w tr)),
                 snd (cleanGitRepoDir w tr) @ [EvClone (flux_url f) (branch f)])
      | Some e \<Rightarrow> (Some (fmt_Errorf ''failed to clean git repository directory'' e),
                   snd (cleanGitRepoDir w tr)))"
    by (rule clone_attempt_cases)
  show "snd (cleanGitRepoDir w tr) =
     tr @ EvReadDir (Path w) #
       (case os_ReadDir w (Path w) tr of Inl er \<Rightarrow> [] | Inr ds \<Rightarrow> removals w ds)"
    by (rule cleanGitRepoDir_trace)
  show "fst (cleanGitRepoDir w tr) = None \<longleftrightarrow>
     (\<exists>ds. os_ReadDir w (Path w) tr = Inr ds \<and>
        (\<forall>i<length ds. os_RemoveAll w (filepath_Join w (Path w) (ds ! i))
                          (tr @ EvReadDir (Path w) # removals w (take i ds)) = None))"
    by (rule cleanGitRepoDir_ok)
  show "0 \<le> n \<longrightarrow>
     (\<exists>k \<le> nat n. retry n wait fn tr = fn (after_failures k wait fn tr) \<and>
        (\<forall>j<k. fst (fn (after_failures j wait fn tr)) \<noteq> None) \<and>
        (k < nat n \<longrightarrow> fst (fn (after_failures k wait fn tr)) = None))"
    using retry_attempts [of n wait fn tr] by blast
  show "n < 0 \<longrightarrow> retry n wait fn tr = fn tr"
    by (simp add: retry_negative)
qed

lemma flaky_fields [simp]:
  "Head flaky_world = (\<lambda>tr. Some ErrNoGitRepository)"
  "Clone flaky_world = (\<lambda>u b tr. if EvSleep two_seconds \<in> set tr then None
                            else Some (LibError ''connection reset''))"
  "os_ReadDir flaky_world = (\<lambda>p tr. Inr [''partial''])"
  "os_RemoveAll flaky_world = (\<lambda>p tr. None)"
  "Path flaky_world = ''/tmp/flux-install''"
  "filepath_Join flaky_world = (\<lambda>a b. a @ ''/'' @ b)"
  by (simp_all add: flaky_world_def scenario_world_def)

lemma scenario_install_fields [simp]:
  "flux_url (scenario_install repo) = ''https://git.example/mpas.git''"
  "branch (scenario_install repo) = ''main''"
  by (simp_all add: scenario_install_def)

lemma flaky_clean [simp]:
  "cleanGitRepoDir flaky_world tr =
     (None, tr @ [EvReadDir ''/tmp/flux-install'', EvRemoveAll ''/tmp/flux-install/partial''])"
  by (simp add: cleanGitRepoDir_def)

text \<open>
  The scenario of the specification: the clone fails once and succeeds on the retry; each
  attempt is preceded by the cleaning of the directory; \<open>retry\<close> with the count 1 made
  two calls of the closure.
\<close>

theorem cloneRepository_retries_once_witness:
  "cloneRepository flaky_world (scenario_install (scenario_repository [] [])) [] =
     (None,
      [EvHead,
       EvReadDir ''/tmp/flux-install'', EvRemoveAll ''/tmp/flux-install/partial'',
       EvClone ''https://git.example/mpas.git'' ''main'',
       EvSleep two_seconds,
       EvReadDir ''/tmp/flux-install'', EvRemoveAll ''/tmp/flux-install/partial'',
       EvClone ''https://git.example/mpas.git'' ''main'']) \<and>
   (\<exists>k\<le>nat 1.
      retry 1 two_seconds (clone_attempt flaky_world (scenario_install (scenario_repository [] [])))
        [EvHead]
      = clone_attempt flaky_world (scenario_install (scenario_repository [] []))
          (after_failures k two_seconds
             (clone_attempt flaky_world (scenario_install (scenario_repository [] []))) [EvHead]) \<and>
      fst (retry 1 two_seconds
             (clone_attempt flaky_world (scenario_install (scenario_repository [] []))) [EvHead])
        = None)"
proof -
  let ?f = "scenario_install (scenario_repository [] [])"
  have h: "Head flaky_world [] = Some ErrNoGitRepository" by simp
  from cloneRepository_retries_once [of flaky_world "[]" ?f 1 two_seconds "clone_attempt flaky_world ?f"]
  have "cloneRepository flaky_world ?f [] =
        (case clone_attempt flaky_world ?f ([] @ [EvHead]) of
           (None, t1) \<Rightarrow> (None, t1)
         | (Some e1, t1) \<Rightarrow>
             (case clone_attempt flaky_world ?f (t1 @ [EvSleep two_seconds]) of
                (None, t2) \<Rightarrow> (None, t2)
              | (Some e2, t2) \<Rightarrow> (Some (fmt_Errorf ''failed to clone repository'' e2), t2)))"
    using h by blast
  then have first: "cloneRepository flaky_world ?f [] =
     (None,
      [EvHead,
       EvReadDir ''/tmp/flux-install'', EvRemoveAll ''/tmp/flux-install/partial'',
       EvClone ''https://git.example/mpas.git'' ''main'',
       EvSleep two_seconds,
       EvReadDir ''/tmp/flux-install'', EvRemoveAll ''/tmp/flux-install/partial'',
       EvClone ''https://git.example/mpas.git'' ''main''])"
    by (simp add: clone_attempt_def)
  have ok: "fst (retry 1 two_seconds (clone_attempt flaky_world ?f) [EvHead]) = None"
    by (simp add: retry_once clone_attempt_def)
  have n: "(0::int) \<le> 1" by simp
  from cloneRepository_retries_once [of flaky_world "[EvHead]" ?f 1 two_seconds
      "clone_attempt flaky_world ?f"] n
  obtain k where "k \<le> nat 1"
    and "retry 1 two_seconds (clone_attempt flaky_world ?f) [EvHead]
           = clone_attempt flaky_world ?f
               (after_failures k two_seconds (clone_attempt flaky_world ?f) [EvHead])"
    by blast
  with ok have "\<exists>k\<le>nat 1.
      retry 1 two_seconds (clone_attempt flaky_world ?f) [EvHead]
      = clone_attempt flaky_world ?f
          (after_failures k two_seconds (clone_attempt flaky_world ?f) [EvHead]) \<and>
      fst (retry 1 two_seconds (clone_attempt flaky_world ?f) [EvHead]) = None"
    by blast
  with first show ?thesis by blast
qed

section \<open>Properties of commit, push and Install\<close>

lemma scenario_world_fields [simp]:
  "Head scenario_world = (\<lambda>tr. None)"
  "Clone scenario_world = (\<lambda>u b tr. None)"
  "Commit scenario_world = (\<lambda>m p c tr. None)"
  "Push scenario_world = (\<lambda>tr. None)"
  "Path scenario_world = ''/tmp/flux-install''"
  "os_ReadDir scenario_world = (\<lambda>p tr. Inr [])"
  "os_RemoveAll scenario_world = (\<lambda>p tr. None)"
  "os_Create scenario_world = (\<lambda>p tr. None)"
  "os_Remove scenario_world = (\<lambda>p tr. None)"
  "os_WriteFile scenario_world = (\<lambda>p b tr. None)"
  "os_ReadFile scenario_world = (\<lambda>p tr. Inr [])"
  "os_Stat scenario_world = (\<lambda>p tr. None)"
  "filepath_Join scenario_world = (\<lambda>a b. a @ ''/'' @ b)"
  "filepath_Dir scenario_world = (\<lambda>p. p)"
  "yaml_Marshal scenario_world = (\<lambda>k. Inr [])"
  "yaml_Unmarshal scenario_world = (\<lambda>d k. Inr k)"
  "decoder_Decode scenario_world = (\<lambda>d. Inr \<lparr>Localization = []\<rparr>)"
  "kustomize_Build scenario_world = (\<lambda>d tr. Inr (Inr []))"
  "MustInstallKustomization scenario_world = (\<lambda>tr. False)"
  "kubeutils_Apply scenario_world = (\<lambda>p tr. None)"
  "ReconcileSourceSecret scenario_world = (\<lambda>tr. None)"
  "ReconcileSyncConfig scenario_world = (\<lambda>u tr. None)"
  "ReportKustomizationHealth scenario_world = (\<lambda>tr. None)"
  "ReportComponentsHealth scenario_world = (\<lambda>cs tr. None)"
  "DefaultFluxHost scenario_world = ''ghcr.io/fluxcd''"
  "DefaultKustomizationFileName scenario_world = ''kustomization.yaml''"
  by (simp_all add: scenario_world_def)

lemma scenario_install_more_fields [simp]:
  "componentName (scenario_install repo) = ''flux''"
  "version (scenario_install repo) = ''v0.1.x''"
  "flux_repository (scenario_install repo) = repo"
  "flux_components (scenario_install repo) = []"
  "testURL (scenario_install repo) = []"
  "targetPath (scenario_install repo) = ''clusters''"
  "namespace (scenario_install repo) = ''flux-system''"
  "dir (scenario_install repo) = ''/tmp/flux-install''"
  "commitMessageAppendix (scenario_install repo) = []"
  by (simp_all add: scenario_install_def)

text \<open>
  Claim C6. In \<open>commitAndPushComponents\<close>: a commit that reports no staged files is
  not an error, the function returns nil and no push is made; any other commit error is
  returned, wrapped, and no push is made; when the commit was created the push is made,
  and its error, if any, is returned wrapped. So a push is among the new events exactly
  when the commit returned nil. An error of the function reaches the caller of
  \<open>reconcileComponents\<close>, wrapped once more.
\<close>

theorem commitAndPushComponents_push_iff_committed:
  "(Commit w (commitMsg f) p c tr = Some ErrNoStagedFiles \<longrightarrow>
      commitAndPushComponents w f p c tr = (None, tr @ [EvCommit (commitMsg f) p c])) \<and>
   (\<forall>e. Commit w (commitMsg f) p c tr = Some e \<and> e \<noteq> ErrNoStagedFiles \<longrightarrow>
      commitAndPushComponents w f p c tr =
        (Some (fmt_Errorf ''failed to commit sync manifests'' e), tr @ [EvCommit (commitMsg f) p c])) \<and>
   (Commit w (commitMsg f) p c tr = None \<longrightarrow>
      commitAndPushComponents w f p c tr =
        (map_option (fmt_Errorf ''failed to push manifests'')
           (Push w (tr @ [EvCommit (commitMsg f) p c])),
         tr @ [EvCommit (commitMsg f) p c, EvPush])) \<and>
   (EvPush \<in> set (drop (length tr) (snd (commitAndPushComponents w f p c tr))) \<longleftrightarrow>
      Commit w (commitMsg f) p c tr = None) \<and>
   (\<forall>e tr0. cloneRepository w f tr0 = (None, tr) \<and>
       fst (commitAndPushComponents w f p c tr) = Some e \<longrightarrow>
       reconcileComponents w f p c tr0 =
         (Some (fmt_Errorf ''failed to commit and push components'' e),
          snd (commitAndPushComponents w f p c tr)))"
proof (intro conjI)
  show "Commit w (commitMsg f) p c tr = Some ErrNoStagedFiles \<longrightarrow>
      commitAndPushComponents w f p c tr = (None, tr @ [EvCommit (commitMsg f) p c])"
    by (simp add: commitAndPushComponents_def Let_def)
  show "\<forall>e. Commit w (commitMsg f) p c tr = Some e \<and> e \<noteq> ErrNoStagedFiles \<longrightarrow>
      commitAndPushComponents w f p c tr =
        (Some (fmt_Errorf ''failed to commit sync manifests'' e), tr @ [EvCommit (commitMsg f) p c])"
    by (simp add: commitAndPushComponents_def Let_def)
  show "Commit w (commitMsg f) p c tr = None \<longrightarrow>
      commitAndPushComponents w f p c tr =
        (map_option (fmt_Errorf ''failed to push manifests'')
           (Push w (tr @ [EvCommit (commitMsg f) p c])),
         tr @ [EvCommit (commitMsg f) p c, EvPush])"
    by (simp add: commitAndPushComponents_def Let_def split: option.splits)
  show "EvPush \<in> set (drop (length tr) (snd (commitAndPushComponents w f p c tr))) \<longleftrightarrow>
      Commit w (commitMsg f) p c tr = None"
    by (cases "Commit w (commitMsg f) p c tr")
       (simp_all add: commitAndPushComponents_def Let_def split: option.splits)
  show "\<forall>e tr0. cloneRepository w f tr0 = (None, tr) \<and>
       fst (commitAndPushComponents w f p c tr) = Some e \<longrightarrow>
       reconcileComponents w f p c tr0 =
         (Some (fmt_Errorf ''failed to commit and push components'' e),
          snd (commitAndPushComponents w f p c tr))"
    by (auto simp: reconcileComponents_def split: prod.splits option.splits)
qed

lemma Install_reportHealth_trace:
  "snd (Install_reportHealth w f tr) =
     tr @ [EvReportKustomizationHealth, EvReportComponentsHealth (flux_components f)]"
  by (simp add: Install_reportHealth_def Let_def split: option.splits)

lemma Install_reportHealth_result:
  "fst (Install_reportHealth w f tr) =
     (case (ReportKustomizationHealth w tr,
            ReportComponentsHealth w (flux_components f) (tr @ [EvReportKustomizationHealth])) of
        (None, None) \<Rightarrow> None
      | (Some a, None) \<Rightarrow>
          Some (fmt_Errorf ''failed to report health, please try again later'' (joinError [a]))
      | (None, Some b) \<Rightarrow>
          Some (fmt_Errorf ''failed to report health, please try again later'' (joinError [b]))
      | (Some a, Some b) \<Rightarrow>
          Some (fmt_Errorf ''failed to report health, please try again later''
                  (joinError [joinError [a], b])))"
  by (simp add: Install_reportHealth_def Let_def split: option.splits)

lemma Install_reportHealth_None:
  "Install_reportHealth w f tr = (None, tr') \<Longrightarrow>
     tr' = tr @ [EvReportKustomizationHealth, EvReportComponentsHealth (flux_components f)] \<and>
     ReportKustomizationHealth w tr = None \<and>
     ReportComponentsHealth w (flux_components f) (tr @ [EvReportKustomizationHealth]) = None"
  using Install_reportHealth_trace [of w f tr] Install_reportHealth_result [of w f tr]
  by (auto split: option.splits)

lemma Install_reconcile_None:
  "Install_reconcile w f res tr = (None, tr') \<Longrightarrow>
     \<exists>h. Install_reportHealth w f h = (None, tr')"
  by (auto simp: Install_reconcile_def Let_def split: prod.splits option.splits)

lemma Install_None:
  "Install w sv f component tr = (Val None, f1, tr1) \<Longrightarrow>
     \<exists>h. Install_reportHealth w f1 h = (None, tr1)"
  by (auto simp: Install_def Let_def split: sum.splits go.splits prod.splits if_splits
           dest: Install_reconcile_None)


lemma scenario_getComponentVersion [simp]:
  "getComponentVersion scenario_semver (scenario_repository (''v0.1.0'' # V) rs) n ''v0.1.x'' =
     Inr \<lparr>GetVersion = ''v0.1.0'', GetResources = rs\<rparr>"
  by (simp add: getComponentVersion_def scenario_repository_def scenario_constraint_def)

lemma getResources_loop_no_component:
  "getResources_loop cn rs acc = Val (Inr r) \<Longrightarrow> \<forall>x\<in>set rs. GetName x \<noteq> cn \<Longrightarrow>
     componentResource r = componentResource acc"
proof (induction rs arbitrary: acc)
  case Nil
  then show ?case by simp
next
  case (Cons x xs)
  then show ?case
    by (auto split: if_splits sum.splits go.splits prod.splits)
qed

lemma getResources_loop_no_config:
  "getResources_loop cn rs acc = Val (Inr r) \<Longrightarrow> \<forall>x\<in>set rs. GetName x \<noteq> ''ocm-config'' \<Longrightarrow>
     ocmConfig r = ocmConfig acc"
proof (induction rs arbitrary: acc)
  case Nil
  then show ?case by simp
next
  case (Cons x xs)
  then show ?case
    by (auto split: if_splits sum.splits go.splits prod.splits)
qed


lemma Install_trace_before_check:
  "getComponentVersion sv (flux_repository f) (componentName f) (version f) = Inr cv \<Longrightarrow>
   getResources cv component = Val (Inr rs) \<Longrightarrow>
   componentResource rs = None \<or> ocmConfig rs = None \<Longrightarrow>
   Install w sv f component tr =
     (Val (Some (errors_New ''flux or ocm-config resource not found'')),
      f\<lparr>flux_components := compomentsList rs\<rparr>, tr)"
  by (simp add: Install_def Let_def)

text \<open>
  Claim C5, amended. When the resolved bundle has no resource named like the component,
  or none named \<open>ocm-config\<close>, \<open>Install\<close> records no event: no Git operation and
  no file-system, kustomize or cluster call, whatever the extraction gives; and when the
  extraction returns without error, \<open>Install\<close> returns the error "flux or ocm-config
  resource not found". A resource that is present with empty content passes the check.
\<close>

theorem Install_missing_required_resource:
  assumes cv: "getComponentVersion sv (flux_repository f) (componentName f) (version f) = Inr cv"
    and missing: "(\<forall>x\<in>set (GetResources cv). GetName x \<noteq> component) \<or>
                  (\<forall>x\<in>set (GetResources cv). GetName x \<noteq> ''ocm-config'')"
  shows "snd (snd (Install w sv f component tr)) = tr \<and>
         filter is_git (drop (length tr) (snd (snd (Install w sv f component tr)))) = [] \<and>
         (\<forall>rs. getResources cv component = Val (Inr rs) \<longrightarrow>
            Install w sv f component tr =
              (Val (Some (errors_New ''flux or ocm-config resource not found'')),
               f\<lparr>flux_components := compomentsList rs\<rparr>, tr))"
proof -
  have nil: "componentResource rs = None \<or> ocmConfig rs = None"
    if rs: "getResources cv component = Val (Inr rs)" for rs
    using missing
  proof
    assume "\<forall>x\<in>set (GetResources cv). GetName x \<noteq> component"
    with rs show ?thesis
      using getResources_loop_no_component [of component "GetResources cv" _ rs]
      by (simp add: getResources_def)
  next
    assume "\<forall>x\<in>set (GetResources cv). GetName x \<noteq> ''ocm-config''"
    with rs show ?thesis
      using getResources_loop_no_config [of component "GetResources cv" _ rs]
      by (simp add: getResources_def)
  qed
  have second: "\<forall>rs. getResources cv component = Val (Inr rs) \<longrightarrow>
            Install w sv f component tr =
              (Val (Some (errors_New ''flux or ocm-config resource not found'')),
               f\<lparr>flux_components := compomentsList rs\<rparr>, tr)"
    using Install_trace_before_check [OF cv] nil by blast
  have first: "snd (snd (Install w sv f component tr)) = tr"
  proof (cases "getResources cv component")
    case (Panic p)
    with cv show ?thesis by (simp add: Install_def)
  next
    case (Val r)
    show ?thesis
    proof (cases r)
      case (Inl e)
      with Val cv show ?thesis by (simp add: Install_def)
    next
      case (Inr rs)
      with Val second show ?thesis by simp
    qed
  qed
  from first have "filter is_git (drop (length tr) (snd (snd (Install w sv f component tr)))) = []"
    by simp
  with first second show ?thesis by blast
qed

lemmas Install_unfold =
  Install_def Let_def getResources_def file_resource_def image_resource_def
  getResourceContent_def getResourceRef_def generateKustomization_def genKus_def
  generateKustomizationFile_def unMarshallConfig_def generateGOTKComponent_def
  buildKustomization_def Install_reconcile_def reconcileComponents_def cloneRepository_def
  commitAndPushComponents_def commitMsg_def Install_reportHealth_def empty_kustomization_def
  lookup_image_def

lemma good_run:
  "Install scenario_world scenario_semver
     (scenario_install (scenario_repository [''v0.1.0''] good_bundle)) ''flux'' [] =
   (Val None,
    (scenario_install (scenario_repository [''v0.1.0''] good_bundle))
      \<lparr>flux_components := [''source-controller'']\<rparr>,
    [EvWriteFile ''/tmp/flux-install/gotk-components.yaml'' ''manifest'',
     EvCreate ''/tmp/flux-install/kustomization.yaml'',
     EvWriteFile ''/tmp/flux-install/kustomization.yaml'' [],
     EvReadFile ''/tmp/flux-install/kustomization.yaml'',
     EvWriteFile ''/tmp/flux-install/kustomization.yaml'' [],
     EvBuild ''/tmp/flux-install'', EvHead,
     EvCommit ''Add Flux v0.1.x component manifests''
       ''clusters/flux-system/gotk-components.yaml'' [],
     EvPush, EvMustInstallKustomization, EvReconcileSourceSecret,
     EvReconcileSyncConfig ''https://git.example/mpas.git'',
     EvReportKustomizationHealth,
     EvReportComponentsHealth [''source-controller'']])"
  by (simp add: Install_unfold good_bundle_def)

text \<open>
  Three runs: nothing staged, a commit error, and a rejected push, the last also through
  \<open>reconcileComponents\<close>.
\<close>

theorem commitAndPushComponents_push_iff_committed_witness:
  "commitAndPushComponents (scenario_world\<lparr>Commit := (\<lambda>m p c tr. Some ErrNoStagedFiles)\<rparr>)
     (scenario_install (scenario_repository [] [])) ''clusters/flux-system/gotk-components.yaml''
     ''manifest'' [EvHead]
     = (None, [EvHead, EvCommit ''Add Flux v0.1.x component manifests''
                 ''clusters/flux-system/gotk-components.yaml'' ''manifest'']) \<and>
   commitAndPushComponents (scenario_world\<lparr>Commit := (\<lambda>m p c tr. Some (LibError ''unknown author''))\<rparr>)
     (scenario_install (scenario_repository [] [])) ''clusters/flux-system/gotk-components.yaml''
     ''manifest'' [EvHead]
     = (Some (fmt_Errorf ''failed to commit sync manifests'' (LibError ''unknown author'')),
        [EvHead, EvCommit ''Add Flux v0.1.x component manifests''
                 ''clusters/flux-system/gotk-components.yaml'' ''manifest'']) \<and>
   commitAndPushComponents (scenario_world\<lparr>Push := (\<lambda>tr. Some (LibError ''rejected''))\<rparr>)
     (scenario_install (scenario_repository [] [])) ''clusters/flux-system/gotk-components.yaml''
     ''manifest'' [EvHead]
     = (Some (fmt_Errorf ''failed to push manifests'' (LibError ''rejected'')),
        [EvHead, EvCommit ''Add Flux v0.1.x component manifests''
                 ''clusters/flux-system/gotk-components.yaml'' ''manifest'', EvPush]) \<and>
   reconcileComponents (scenario_world\<lparr>Push := (\<lambda>tr. Some (LibError ''rejected''))\<rparr>)
     (scenario_install (scenario_repository [] [])) ''clusters/flux-system/gotk-components.yaml''
     ''manifest'' []
     = (Some (fmt_Errorf ''failed to commit and push components''
                (fmt_Errorf ''failed to push manifests'' (LibError ''rejected''))),
        [EvHead, EvCommit ''Add Flux v0.1.x component manifests''
                 ''clusters/flux-system/gotk-components.yaml'' ''manifest'', EvPush])"
proof -
  let ?f = "scenario_install (scenario_repository [] [])"
  let ?p = "''clusters/flux-system/gotk-components.yaml''"
  have msg: "commitMsg ?f = ''Add Flux v0.1.x component manifests''"
    by (simp add: commitMsg_def)
  have clone: "cloneRepository (scenario_world\<lparr>Push := (\<lambda>tr. Some (LibError ''rejected''))\<rparr>) ?f []
                 = (None, [EvHead])"
    by (simp add: cloneRepository_def)
  show ?thesis
    using commitAndPushComponents_push_iff_committed
        [of "scenario_world\<lparr>Commit := (\<lambda>m p c tr. Some ErrNoStagedFiles)\<rparr>" ?f ?p "''manifest''" "[EvHead]"]
      commitAndPushComponents_push_iff_committed
        [of "scenario_world\<lparr>Commit := (\<lambda>m p c tr. Some (LibError ''unknown author''))\<rparr>" ?f ?p
          "''manifest''" "[EvHead]"]
      commitAndPushComponents_push_iff_committed
        [of "scenario_world\<lparr>Push := (\<lambda>tr. Some (LibError ''rejected''))\<rparr>" ?f ?p "''manifest''" "[EvHead]"]
      clone
    by (simp add: msg)
qed

lemma Install_reportHealth_eq:
  "Install_reportHealth w f tr =
     ((case (ReportKustomizationHealth w tr,
            ReportComponentsHealth w (flux_components f) (tr @ [EvReportKustomizationHealth])) of
        (None, None) \<Rightarrow> None
      | (Some a, None) \<Rightarrow>
          Some (fmt_Errorf ''failed to report health, please try again later'' (joinError [a]))
      | (None, Some b) \<Rightarrow>
          Some (fmt_Errorf ''failed to report health, please try again later'' (joinError [b]))
      | (Some a, Some b) \<Rightarrow>
          Some (fmt_Errorf ''failed to report health, please try again later''
                  (joinError [joinError [a], b]))),
      tr @ [EvReportKustomizationHealth, EvReportComponentsHealth (flux_components f)])"
  using Install_reportHealth_trace [of w f tr] Install_reportHealth_result [of w f tr]
  by (metis prod.collapse)

text \<open>
  Claim C7. The health phase of \<open>Install\<close> always makes both calls, the kustomization
  health report and then the components health report, whatever the first returns; the
  errors are joined, the first one first, and returned wrapped; the phase returns nil
  only when both calls do. Every run of \<open>Install\<close> that reaches the phase, that is
  whose steps up to the reconciliation of the sync configuration returned no error,
  makes both calls in this order as its last two events, whatever the first returns,
  and returns the joined and wrapped errors of the two, nil when both are nil. And
  \<open>Install\<close> returns nil only at the end of this phase, so only when both checks
  succeeded.
\<close>

theorem Install_reportHealth_both_checks:
  "snd (Install_reportHealth w f tr) =
     tr @ [EvReportKustomizationHealth, EvReportComponentsHealth (flux_components f)] \<and>
   fst (Install_reportHealth w f tr) =
     (case (ReportKustomizationHealth w tr,
            ReportComponentsHealth w (flux_components f) (tr @ [EvReportKustomizationHealth])) of
        (None, None) \<Rightarrow> None
      | (Some a, None) \<Rightarrow>
          Some (fmt_Errorf ''failed to report health, please try again later'' (joinError [a]))
      | (None, Some b) \<Rightarrow>
          Some (fmt_Errorf ''failed to report health, please try again later'' (joinError [b]))
      | (Some a, Some b) \<Rightarrow>
          Some (fmt_Errorf ''failed to report health, please try again later''
                  (joinError [joinError [a], b]))) \<and>
   (\<forall>cv rs cr oc kfile kus t1 kconfig res t2 t3.
      getComponentVersion sv (flux_repository f0) (componentName f0) (version f0) = Inr cv \<and>
      getResources cv component = Val (Inr rs) \<and>
      componentResource rs = Some cr \<and>
      ocmConfig rs = Some oc \<and>
      generateKustomization w (f0\<lparr>flux_components := compomentsList rs\<rparr>) cr oc tr0 = (Inr (kfile, kus), t1) \<and>
      unMarshallConfig w oc = Inr kconfig \<and>
      generateGOTKComponent w (f0\<lparr>flux_components := compomentsList rs\<rparr>) kconfig (imagesResources rs) kus kfile t1 = (Inr res, t2) \<and>
      reconcileComponents w (f0\<lparr>flux_components := compomentsList rs\<rparr>) (targetPath f0 @ ''/'' @ namespace f0 @ ''/'' @ ''gotk-components.yaml'') res t2 = (None, t3) \<and>
      ReconcileSourceSecret w t3 = None \<and>
      ReconcileSyncConfig w (if testURL f0 \<noteq> [] then testURL f0 else flux_url f0) (t3 @ [EvReconcileSourceSecret]) = None \<longrightarrow>
      Install w sv f0 component tr0 =
        (Val (case (ReportKustomizationHealth w (t3 @ [EvReconcileSourceSecret, EvReconcileSyncConfig (if testURL f0 \<noteq> [] then testURL f0 else flux_url f0)]),
        ReportComponentsHealth w (compomentsList rs)
          (t3 @ [EvReconcileSourceSecret, EvReconcileSyncConfig (if testURL f0 \<noteq> [] then testURL f0 else flux_url f0)] @ [EvReportKustomizationHealth])) of
    (None, None) \<Rightarrow> None
  | (Some a, None) \<Rightarrow>
      Some (fmt_Errorf ''failed to report health, please try again later'' (joinError [a]))
  | (None, Some b) \<Rightarrow>
      Some (fmt_Errorf ''failed to report health, please try again later'' (joinError [b]))
  | (Some a, Some b) \<Rightarrow>
      Some (fmt_Errorf ''failed to report health, please try again later''
              (joinError [joinError [a], b]))),
         (f0\<lparr>flux_components := compomentsList rs\<rparr>),
         t3 @ [EvReconcileSourceSecret, EvReconcileSyncConfig (if testURL f0 \<noteq> [] then testURL f0 else flux_url f0)] @
           [EvReportKustomizationHealth, EvReportComponentsHealth (compomentsList rs)])) \<and>
   (\<forall>f1 tr1. Install w sv f0 component tr0 = (Val None, f1, tr1) \<longrightarrow>
      (\<exists>h. tr1 = h @ [EvReportKustomizationHealth, EvReportComponentsHealth (flux_components f1)] \<and>
           ReportKustomizationHealth w h = None \<and>
           ReportComponentsHealth w (flux_components f1) (h @ [EvReportKustomizationHealth]) = None))"
  apply (rule conjI)
  subgoal by (rule Install_reportHealth_trace)
  apply (rule conjI)
  subgoal by (rule Install_reportHealth_result)
  apply (rule conjI)
  subgoal by (auto simp: Install_def Install_reconcile_def Let_def Install_reportHealth_eq)
  subgoal using Install_None Install_reportHealth_None by blast
  done

lemma timeout_run:
  "Install (scenario_world\<lparr>ReportKustomizationHealth :=
               (\<lambda>tr. Some (LibError ''timeout waiting for kustomization''))\<rparr>)
      scenario_semver (scenario_install (scenario_repository [''v0.1.0''] good_bundle)) ''flux'' [] =
   (Val (Some (fmt_Errorf ''failed to report health, please try again later''
                 (joinError [LibError ''timeout waiting for kustomization'']))),
    (scenario_install (scenario_repository [''v0.1.0''] good_bundle))
      \<lparr>flux_components := [''source-controller'']\<rparr>,
    [EvWriteFile ''/tmp/flux-install/gotk-components.yaml'' ''manifest'',
     EvCreate ''/tmp/flux-install/kustomization.yaml'',
     EvWriteFile ''/tmp/flux-install/kustomization.yaml'' [],
     EvReadFile ''/tmp/flux-install/kustomization.yaml'',
     EvWriteFile ''/tmp/flux-install/kustomization.yaml'' [],
     EvBuild ''/tmp/flux-install'', EvHead,
     EvCommit ''Add Flux v0.1.x component manifests''
       ''clusters/flux-system/gotk-components.yaml'' [],
     EvPush, EvMustInstallKustomization, EvReconcileSourceSecret,
     EvReconcileSyncConfig ''https://git.example/mpas.git'',
     EvReportKustomizationHealth,
     EvReportComponentsHealth [''source-controller'']])"
  by (simp add: Install_unfold good_bundle_def)

text \<open>
  The scenario of the specification, as a run of \<open>Install\<close>: every step up to the
  health phase succeeds, the kustomization health report times out and the components
  health report succeeds. Both reports are made, and \<open>Install\<close> returns the timeout,
  joined and wrapped. The second part is a run that returns nil.
\<close>

theorem Install_reportHealth_both_checks_witness:
  "Install (scenario_world\<lparr>ReportKustomizationHealth :=
               (\<lambda>tr. Some (LibError ''timeout waiting for kustomization''))\<rparr>)
      scenario_semver (scenario_install (scenario_repository [''v0.1.0''] good_bundle)) ''flux'' [] =
   (Val (Some (fmt_Errorf ''failed to report health, please try again later''
                 (joinError [LibError ''timeout waiting for kustomization'']))),
    (scenario_install (scenario_repository [''v0.1.0''] good_bundle))
      \<lparr>flux_components := [''source-controller'']\<rparr>,
    [EvWriteFile ''/tmp/flux-install/gotk-components.yaml'' ''manifest'',
     EvCreate ''/tmp/flux-install/kustomization.yaml'',
     EvWriteFile ''/tmp/flux-install/kustomization.yaml'' [],
     EvReadFile ''/tmp/flux-install/kustomization.yaml'',
     EvWriteFile ''/tmp/flux-install/kustomization.yaml'' [],
     EvBuild ''/tmp/flux-install'', EvHead,
     EvCommit ''Add Flux v0.1.x component manifests''
       ''clusters/flux-system/gotk-components.yaml'' [],
     EvPush, EvMustInstallKustomization, EvReconcileSourceSecret,
     EvReconcileSyncConfig ''https://git.example/mpas.git'',
     EvReportKustomizationHealth,
     EvReportComponentsHealth [''source-controller'']]) \<and>
   (\<exists>h. snd (snd (Install scenario_world scenario_semver
                     (scenario_install (scenario_repository [''v0.1.0''] good_bundle)) ''flux'' []))
          = h @ [EvReportKustomizationHealth, EvReportComponentsHealth [''source-controller'']] \<and>
        ReportKustomizationHealth scenario_world h = None \<and>
        ReportComponentsHealth scenario_world [''source-controller'']
          (h @ [EvReportKustomizationHealth]) = None)"
proof -
  let ?w = "scenario_world\<lparr>ReportKustomizationHealth :=
              (\<lambda>tr. Some (LibError ''timeout waiting for kustomization''))\<rparr>"
  let ?f = "scenario_install (scenario_repository [''v0.1.0''] good_bundle)"
  let ?f1 = "?f\<lparr>flux_components := [''source-controller'']\<rparr>"
  let ?cv = "\<lparr>GetVersion = ''v0.1.0'', GetResources = good_bundle\<rparr>"
  let ?rs = "\<lparr>componentResource = Some ''manifest'', ocmConfig = Some ''config'',
             imagesResources = [''source-controller'' \<mapsto>
                \<lparr>Name = ''ghcr.io/fluxcd/source-controller'', Tag = ''v1.0.0''\<rparr>],
             compomentsList = [''source-controller'']\<rparr>"
  let ?k = "''/tmp/flux-install/kustomization.yaml''"
  let ?t1 = "[EvWriteFile ''/tmp/flux-install/gotk-components.yaml'' ''manifest'',
              EvCreate ?k, EvWriteFile ?k [], EvReadFile ?k]"
  let ?t2 = "?t1 @ [EvWriteFile ?k [], EvBuild ''/tmp/flux-install'']"
  let ?t3 = "?t2 @ [EvHead,
                    EvCommit ''Add Flux v0.1.x component manifests''
                      ''clusters/flux-system/gotk-components.yaml'' [],
                    EvPush, EvMustInstallKustomization]"
  have p1: "getComponentVersion scenario_semver (flux_repository ?f) (componentName ?f) (version ?f)
              = Inr ?cv"
    by simp
  have p2: "getResources ?cv ''flux'' = Val (Inr ?rs)"
    by (simp add: Install_unfold good_bundle_def)
  have p3: "componentResource ?rs = Some ''manifest''" "ocmConfig ?rs = Some ''config''"
    "compomentsList ?rs = [''source-controller'']"
    by simp_all
  have p4: "generateKustomization ?w ?f1 ''manifest'' ''config'' []
              = (Inr (?k, empty_kustomization), ?t1)"
    by (simp add: Install_unfold)
  have p5: "unMarshallConfig ?w ''config'' = Inr \<lparr>Localization = []\<rparr>"
    by (simp add: Install_unfold)
  have p6: "generateGOTKComponent ?w ?f1 \<lparr>Localization = []\<rparr> (imagesResources ?rs)
              empty_kustomization ?k ?t1 = (Inr [], ?t2)"
    by (simp add: Install_unfold)
  have p7: "reconcileComponents ?w ?f1
              (targetPath ?f @ ''/'' @ namespace ?f @ ''/'' @ ''gotk-components.yaml'') [] ?t2
              = (None, ?t3)"
    by (simp add: Install_unfold)
  have p8: "ReconcileSourceSecret ?w ?t3 = None"
    "ReconcileSyncConfig ?w (if testURL ?f \<noteq> [] then testURL ?f else flux_url ?f)
       (?t3 @ [EvReconcileSourceSecret]) = None"
    by simp_all
  note inst = Install_reportHealth_both_checks
      [where w = ?w and sv = scenario_semver and ?f0.0 = ?f and component = "''flux''"
         and ?tr0.0 = "[]"]
  from inst [THEN conjunct2, THEN conjunct2, THEN conjunct1, rule_format,
      where cv = ?cv and rs = ?rs and cr = "''manifest''" and oc = "''config''" and kfile = ?k
        and kus = empty_kustomization and ?t1.0 = ?t1 and kconfig = "\<lparr>Localization = []\<rparr>"
        and res = "[]" and ?t2.0 = ?t2 and ?t3.0 = ?t3]
    p1 p2 p3 p4 p5 p6 p7 p8
  have first: "Install ?w scenario_semver ?f ''flux'' [] =
   (Val (Some (fmt_Errorf ''failed to report health, please try again later''
                 (joinError [LibError ''timeout waiting for kustomization'']))),
    ?f1,
    ?t3 @ [EvReconcileSourceSecret, EvReconcileSyncConfig ''https://git.example/mpas.git'',
           EvReportKustomizationHealth, EvReportComponentsHealth [''source-controller'']])"
    by simp
  note inst2 = Install_reportHealth_both_checks
      [where w = scenario_world and sv = scenario_semver and ?f0.0 = ?f and component = "''flux''"
         and ?tr0.0 = "[]"]
  from inst2 [THEN conjunct2, THEN conjunct2, THEN conjunct2, rule_format, OF good_run]
  have second: "\<exists>h. snd (snd (Install scenario_world scenario_semver ?f ''flux'' []))
          = h @ [EvReportKustomizationHealth, EvReportComponentsHealth [''source-controller'']] \<and>
        ReportKustomizationHealth scenario_world h = None \<and>
        ReportComponentsHealth scenario_world [''source-controller'']
          (h @ [EvReportKustomizationHealth]) = None"
    by (simp add: good_run)
  from first second show ?thesis by simp
qed

text \<open>
  Claim C5, as stated, fails for an empty resource: the check compares the byte slices
  with nil, and the bytes read from a resource are never nil. With an empty primary
  manifest, in a world where every call succeeds, \<open>Install\<close> returns nil and makes the
  head probe, the commit and the push.
\<close>

theorem Install_empty_manifest_counterexample:
  "getResources
     \<lparr>GetVersion = ''v0.1.0'',
      GetResources = [file_resource ''flux'' [], file_resource ''ocm-config'' ''config'']\<rparr> ''flux''
     = Val (Inr \<lparr>componentResource = Some [], ocmConfig = Some ''config'',
                 imagesResources = Map.empty, compomentsList = []\<rparr>) \<and>
   fst (Install scenario_world scenario_semver
          (scenario_install (scenario_repository [''v0.1.0'']
             [file_resource ''flux'' [], file_resource ''ocm-config'' ''config''])) ''flux'' [])
     = Val None \<and>
   filter is_git (snd (snd (Install scenario_world scenario_semver
          (scenario_install (scenario_repository [''v0.1.0'']
             [file_resource ''flux'' [], file_resource ''ocm-config'' ''config''])) ''flux'' [])))
     = [EvHead,
        EvCommit ''Add Flux v0.1.x component manifests''
          ''clusters/flux-system/gotk-components.yaml'' [],
        EvPush]"
  by (simp add: Install_unfold)

text \<open>
  The scenario of the specification: a bundle without \<open>ocm-config\<close>.
\<close>

theorem Install_missing_required_resource_witness:
  "Install scenario_world scenario_semver
     (scenario_install (scenario_repository [''v0.1.0''] [file_resource ''flux'' ''manifest'']))
     ''flux'' []
   = (Val (Some (errors_New ''flux or ocm-config resource not found'')),
      (scenario_install (scenario_repository [''v0.1.0''] [file_resource ''flux'' ''manifest'']))
        \<lparr>flux_components := []\<rparr>,
      [])"
proof -
  let ?rs = "[file_resource ''flux'' ''manifest'']"
  let ?f = "scenario_install (scenario_repository [''v0.1.0''] ?rs)"
  let ?cv = "\<lparr>GetVersion = ''v0.1.0'', GetResources = ?rs\<rparr>"
  have cv: "getComponentVersion scenario_semver (flux_repository ?f) (componentName ?f) (version ?f)
              = Inr ?cv"
    by simp
  have missing: "(\<forall>x\<in>set (GetResources ?cv). GetName x \<noteq> ''flux'') \<or>
                 (\<forall>x\<in>set (GetResources ?cv). GetName x \<noteq> ''ocm-config'')"
    by (simp add: file_resource_def)
  have rs: "getResources ?cv ''flux'' =
              Val (Inr \<lparr>componentResource = Some ''manifest'', ocmConfig = None,
                         imagesResources = Map.empty, compomentsList = []\<rparr>)"
    by (simp add: getResources_def file_resource_def getResourceContent_def)
  from Install_missing_required_resource [OF cv missing, of scenario_world "[]"] rs
  show ?thesis by simp
qed

section \<open>Which errors reach the caller\<close>









lemma causes_self [simp]: "e \<in> set (causes e)"
  by (cases e) simp_all






















lemma read_failure_run:
  "Install scenario_world scenario_semver
      (scenario_install (scenario_repository [''v0.1.0'']
         [file_resource ''flux'' ''manifest'',
          (file_resource ''ocm-config'' [])\<lparr>AccessMethod := Inr (Inl (LibError ''blob not found''))\<rparr>]))
      ''flux'' [] =
   (Val (Some (fmt_Errorf ''failed to get resources'' (LibError ''blob not found''))),
    scenario_install (scenario_repository [''v0.1.0'']
         [file_resource ''flux'' ''manifest'',
          (file_resource ''ocm-config'' [])\<lparr>AccessMethod := Inr (Inl (LibError ''blob not found''))\<rparr>]),
    [])"
  by (simp add: Install_unfold)



end
